theory Spec2Isabelle
  imports Main "HOL-Library.Monad_Syntax"
begin

section \<open>ECMAScript regular expressions used by the rules\<close>

text \<open>
  The rules in \<^verbatim>\<open>lib/rules/camelcase.js\<close> rest on two regular-expression literals,
  both carrying the \<^verbatim>\<open>g\<close> flag. ECMAScript defines pattern matching by
  continuation-passing matchers with backtracking; the combinators below follow that
  definition. A match state is the current end index, the input that is still unread, and
  the captures made so far (group number and captured text, most recent first).

  Strings are lists of 8-bit characters: the model covers names written in ASCII, which
  is what the examples of the rule's documentation use.
\<close>

type_synonym mstate = "nat \<times> string \<times> (nat \<times> string) list"
type_synonym cont = "mstate \<Rightarrow> mstate option"
type_synonym matcher = "mstate \<Rightarrow> cont \<Rightarrow> mstate option"

text \<open>A character class: consumes one character that satisfies \<open>P\<close>.\<close>

fun chr :: "(char \<Rightarrow> bool) \<Rightarrow> matcher" where
  "chr P (i, [], caps) k = None"
| "chr P (i, c # cs, caps) k = (if P c then k (Suc i, cs, caps) else None)"

text \<open>
  Greedy \<^verbatim>\<open>*\<close> over a character class: take one more character first, and fall back
  to the continuation at the current position when the longer attempt fails.
\<close>

fun star :: "(char \<Rightarrow> bool) \<Rightarrow> matcher" where
  "star P (i, [], caps) k = k (i, [], caps)"
| "star P (i, c # cs, caps) k =
     (if P c then
        (case star P (Suc i, cs, caps) k of
           Some r \<Rightarrow> Some r
         | None \<Rightarrow> k (i, c # cs, caps))
      else k (i, c # cs, caps))"

definition seq :: "matcher \<Rightarrow> matcher \<Rightarrow> matcher" where
  "seq m1 m2 st k = m1 st (\<lambda>st'. m2 st' k)"

text \<open>Greedy \<^verbatim>\<open>+\<close> over a character class: one character, then \<^verbatim>\<open>*\<close>.\<close>

definition plus :: "(char \<Rightarrow> bool) \<Rightarrow> matcher" where
  "plus P = seq (chr P) (star P)"

text \<open>Alternation \<^verbatim>\<open>a|b\<close>: the left alternative first.\<close>

definition alt :: "matcher \<Rightarrow> matcher \<Rightarrow> matcher" where
  "alt m1 m2 st k = (case m1 st k of Some r \<Rightarrow> Some r | None \<Rightarrow> m2 st k)"

text \<open>Negative lookahead \<^verbatim>\<open>(?!m)\<close>: succeeds, consuming nothing, when \<open>m\<close> fails here.\<close>

definition neglook :: "matcher \<Rightarrow> matcher" where
  "neglook m st k = (case m st Some of Some r \<Rightarrow> None | None \<Rightarrow> k st)"

text \<open>
  The assertions \<^verbatim>\<open>^\<close> and \<^verbatim>\<open>$\<close> without the multiline flag: only the very
  start (end index zero) and the very end of the input.
\<close>

definition bos :: matcher where
  "bos st k = (if fst st = 0 then k st else None)"

definition eos :: matcher where
  "eos st k = (if fst (snd st) = [] then k st else None)"

text \<open>A capturing group: records the text that \<open>m\<close> consumed under the number \<open>n\<close>.\<close>

definition group :: "nat \<Rightarrow> matcher \<Rightarrow> matcher" where
  "group n m st k =
     m st (\<lambda>st'. k (fst st', fst (snd st'),
                     (n, take (fst st' - fst st) (fst (snd st))) # snd (snd st')))"

definition capture :: "nat \<Rightarrow> mstate \<Rightarrow> string" where
  "capture n st = (case map_of (snd (snd st)) n of Some s \<Rightarrow> s | None \<Rightarrow> [])"

definition isUnderscore :: "char \<Rightarrow> bool" where
  "isUnderscore c = (c = CHR ''_'')"

definition notUnderscore :: "char \<Rightarrow> bool" where
  "notUnderscore c = (c \<noteq> CHR ''_'')"

text \<open>\<^verbatim>\<open>.\<close> matches every character but a line terminator.\<close>

definition anyChar :: "char \<Rightarrow> bool" where
  "anyChar c = (c \<noteq> CHR 0x0A \<and> c \<noteq> CHR 0x0D)"

text \<open>
  \<^verbatim>\<open>var NON_SURROUNDING_UNDERSCORE = /^_*[^_]+(_+)(?!_*$)/g;\<close>
\<close>

definition NON_SURROUNDING_UNDERSCORE :: matcher where
  "NON_SURROUNDING_UNDERSCORE =
     seq bos
       (seq (star isUnderscore)
         (seq (plus notUnderscore)
           (seq (group 1 (plus isUnderscore))
                (neglook (seq (star isUnderscore) eos)))))"

text \<open>
  \<^verbatim>\<open>var SNAKE_LETTER = /^(_*[^_]+)_+(.)(?:(?!_*$)|$)/g;\<close>
\<close>

definition SNAKE_LETTER :: matcher where
  "SNAKE_LETTER =
     seq bos
       (seq (group 1 (seq (star isUnderscore) (plus notUnderscore)))
         (seq (plus isUnderscore)
           (seq (group 2 (chr anyChar))
                (alt (neglook (seq (star isUnderscore) eos)) eos))))"

subsection \<open>\<^verbatim>\<open>exec\<close>, \<^verbatim>\<open>test\<close> and \<^verbatim>\<open>replace\<close> on a global regular expression\<close>

text \<open>One match attempt starting at index \<open>i\<close> of \<open>s\<close>.\<close>

definition matchAt :: "matcher \<Rightarrow> string \<Rightarrow> nat \<Rightarrow> mstate option" where
  "matchAt m s i = m (i, drop i s, []) Some"

text \<open>
  The search loop of \<^verbatim>\<open>RegExp.prototype.exec\<close>: try index \<open>i\<close>, then \<open>i + 1\<close>, ...,
  for \<open>n\<close> start positions. The result is the start index and the final match state.
\<close>

fun search :: "matcher \<Rightarrow> string \<Rightarrow> nat \<Rightarrow> nat \<Rightarrow> (nat \<times> mstate) option" where
  "search m s i 0 = None"
| "search m s i (Suc n) =
     (case matchAt m s i of
        Some st \<Rightarrow> Some (i, st)
      | None \<Rightarrow> search m s (Suc i) n)"

text \<open>
  \<^verbatim>\<open>exec\<close> on a regular expression with the \<^verbatim>\<open>g\<close> flag reads the object's
  \<^verbatim>\<open>lastIndex\<close>, searches from there, and writes \<^verbatim>\<open>lastIndex\<close> back: the end index
  of the match, or zero when there is none. The second component is the new
  \<^verbatim>\<open>lastIndex\<close>.
\<close>

definition exec :: "matcher \<Rightarrow> nat \<Rightarrow> string \<Rightarrow> (nat \<times> mstate) option \<times> nat" where
  "exec m lastIndex s =
     (if length s < lastIndex then (None, 0)
      else (case search m s lastIndex (Suc (length s) - lastIndex) of
              None \<Rightarrow> (None, 0)
            | Some (i, st) \<Rightarrow> (Some (i, st), fst st)))"

text \<open>\<^verbatim>\<open>RegExp.prototype.test\<close>: whether \<^verbatim>\<open>exec\<close> found a match.\<close>

definition test :: "matcher \<Rightarrow> nat \<Rightarrow> string \<Rightarrow> bool \<times> nat" where
  "test m lastIndex s = (case exec m lastIndex s of (r, li) \<Rightarrow> (r \<noteq> None, li))"

text \<open>
  \<^verbatim>\<open>String.prototype.replace\<close> with a global regular expression sets \<^verbatim>\<open>lastIndex\<close>
  to zero and calls \<^verbatim>\<open>exec\<close> until it finds nothing; after an empty match it moves
  \<^verbatim>\<open>lastIndex\<close> one further. The loop is bounded by a step count; \<open>None\<close> says the
  count ran out before \<^verbatim>\<open>exec\<close> returned null.
\<close>

fun matches :: "nat \<Rightarrow> matcher \<Rightarrow> nat \<Rightarrow> string \<Rightarrow> (nat \<times> mstate) list option" where
  "matches 0 m lastIndex s = None"
| "matches (Suc n) m lastIndex s =
     (case exec m lastIndex s of
        (None, li) \<Rightarrow> Some []
      | (Some (i, st), li) \<Rightarrow>
          (case matches n m (if li = i then Suc li else li) s of
             None \<Rightarrow> None
           | Some ms \<Rightarrow> Some ((i, st) # ms)))"

text \<open>
  The result string: the text between the matches is kept, each match is replaced by
  what the replacer function returns for its match state. \<open>pos\<close> is the index up to
  which the input has been copied.
\<close>

fun substitute :: "(mstate \<Rightarrow> string) \<Rightarrow> string \<Rightarrow> nat \<Rightarrow> (nat \<times> mstate) list \<Rightarrow> string" where
  "substitute f s pos [] = drop pos s"
| "substitute f s pos ((i, st) # ms) =
     take (i - pos) (drop pos s) @ f st @ substitute f s (fst st) ms"

definition replace :: "matcher \<Rightarrow> (mstate \<Rightarrow> string) \<Rightarrow> string \<Rightarrow> string option" where
  "replace m f s = map_option (substitute f s 0) (matches (length s + 2) m 0 s)"

section \<open>The camelcase rule: string helpers\<close>

text \<open>
  \<^verbatim>\<open>String.prototype.toUpperCase\<close> on ASCII text: the letters \<^verbatim>\<open>a\<close> to \<^verbatim>\<open>z\<close> are
  mapped to \<^verbatim>\<open>A\<close> to \<^verbatim>\<open>Z\<close>. Every other character is left as it is, which is what
  JavaScript does for the other ASCII characters only; names with characters outside
  ASCII are outside the model.
\<close>

definition upperChar :: "char \<Rightarrow> char" where
  "upperChar c =
     (case map_of (zip ''abcdefghijklmnopqrstuvwxyz'' ''ABCDEFGHIJKLMNOPQRSTUVWXYZ'') c of
        Some u \<Rightarrow> u
      | None \<Rightarrow> c)"

definition toUpperCase :: "string \<Rightarrow> string" where
  "toUpperCase s = map upperChar s"

text \<open>\<^verbatim>\<open>function isUpperCase(name) { return name === name.toUpperCase(); }\<close>\<close>

definition isUpperCase :: "string \<Rightarrow> bool" where
  "isUpperCase name = (name = toUpperCase name)"

text \<open>
  \<^verbatim>\<open>function isSnakeCase(name) {
    return NON_SURROUNDING_UNDERSCORE.test(name) && !isUpperCase(name); }\<close>

  The regular expression object is created once per rule instance and carries the
  \<^verbatim>\<open>g\<close> flag, so \<^verbatim>\<open>test\<close> reads and writes its \<^verbatim>\<open>lastIndex\<close>: the function takes
  the current \<^verbatim>\<open>lastIndex\<close> and returns the new one with its answer.
\<close>

definition isSnakeCase :: "nat \<Rightarrow> string \<Rightarrow> bool \<times> nat" where
  "isSnakeCase lastIndex name =
     (case test NON_SURROUNDING_UNDERSCORE lastIndex name of
        (b, li) \<Rightarrow> (b \<and> \<not> isUpperCase name, li))"

text \<open>
  \<^verbatim>\<open>function snakeToCamelCase(name) {
    return name.replace(SNAKE_LETTER, function toUpperCase(_, prefix, letter) {
        return prefix + letter.toUpperCase(); }); }\<close>
\<close>

definition snakeToCamelCase :: "string \<Rightarrow> string option" where
  "snakeToCamelCase name =
     replace SNAKE_LETTER (\<lambda>st. capture 1 st @ toUpperCase (capture 2 st)) name"

section \<open>Syntax trees, reports and fixes\<close>

text \<open>
  An AST node is a JavaScript object; the record has one field for every property the
  four rules read, \<open>None\<close> standing for \<^verbatim>\<open>undefined\<close> or \<^verbatim>\<open>null\<close>. Nodes live in
  an arena and refer to each other by index, so that \<^verbatim>\<open>===\<close> on nodes is equality of
  indices and \<^verbatim>\<open>parent\<close> is a plain back-reference.
\<close>

datatype literal = StringValue string | NumberValue int | BooleanValue bool | NullValue

record node =
  ntype :: string
  name :: "string option"
  parent :: "nat option"
  object :: "nat option"
  property :: "nat option"
  left :: "nat option"
  right :: "nat option"
  key :: "nat option"
  val :: "nat option"
  operator :: "string option"
  lvalue :: "literal option"
  body :: "nat list option"
  cases :: "nat list option"
  range :: "nat \<times> nat"

type_synonym ast = "nat \<Rightarrow> node option"

definition emptyNode :: node where
  "emptyNode =
     \<lparr>ntype = [], name = None, parent = None, object = None, property = None,
      left = None, right = None, key = None, val = None, operator = None,
      lvalue = None, body = None, cases = None, range = (0, 0)\<rparr>"

text \<open>
  Following a reference. Reading a property of \<^verbatim>\<open>undefined\<close> or \<^verbatim>\<open>null\<close> throws a
  \<^verbatim>\<open>TypeError\<close>; in the callbacks below \<open>None\<close> is that exception.
\<close>

definition deref :: "ast \<Rightarrow> nat option \<Rightarrow> node option" where
  "deref t r = (case r of None \<Rightarrow> None | Some i \<Rightarrow> t i)"

text \<open>String conversion of a name that may be \<^verbatim>\<open>undefined\<close>.\<close>

definition toStr :: "string option \<Rightarrow> string" where
  "toStr v = (case v of None \<Rightarrow> ''undefined'' | Some s \<Rightarrow> s)"

text \<open>
  A fix is a function of the fixer that the engine calls later. The closures the rules
  build are kept as data: the node or the token (by its position) and the direction they
  capture. \<open>runCamelFix\<close> and \<open>runNewParensFix\<close> below run the first two.
\<close>

datatype fixfn =
    ReplaceWithCamelCase nat
  | InsertParensAfter nat
  | AddPadding nat int
  | RemovePadding nat int

record report =
  rnode :: nat
  loc :: "(int \<times> int) option"
  message :: string
  data :: "(string \<times> string) list"
  rfix :: "fixfn option"

record edit =
  erange :: "nat \<times> nat"
  etext :: string

text \<open>
  Modelled from the spec: the fix builder (\<^verbatim>\<open>fixer.replaceText\<close>,
  \<^verbatim>\<open>fixer.insertTextAfter\<close>) is not part of the sources. A fix is a half-open range
  of the original source text and the text that replaces it.
\<close>

definition replaceText :: "node \<Rightarrow> string \<Rightarrow> edit" where
  "replaceText n text = \<lparr>erange = range n, etext = text\<rparr>"

definition insertTextAfter :: "node \<Rightarrow> string \<Rightarrow> edit" where
  "insertTextAfter n text = \<lparr>erange = (snd (range n), snd (range n)), etext = text\<rparr>"

text \<open>
  Modelled from the spec: the engine applies a fix by replacing the range with the text.
\<close>

definition applyEdit :: "string \<Rightarrow> edit \<Rightarrow> string" where
  "applyEdit src e = take (fst (erange e)) src @ etext e @ drop (snd (erange e)) src"

section \<open>The camelcase rule\<close>

text \<open>
  The state of one rule instance: the \<^verbatim>\<open>reported\<close> array, the \<^verbatim>\<open>lastIndex\<close> of the
  \<^verbatim>\<open>NON_SURROUNDING_UNDERSCORE\<close> object, and the reports handed to
  \<^verbatim>\<open>context.report\<close> so far.
\<close>

record rstate =
  reported :: "nat list"
  lastIndex :: nat
  reports :: "report list"

definition initial :: rstate where
  "initial = \<lparr>reported = [], lastIndex = 0, reports = []\<rparr>"

text \<open>
  \<^verbatim>\<open>var options = context.options[0] || {}, properties = options.properties || "";
  if (properties !== "always" && properties !== "never") { properties = "always"; }\<close>

  The argument is \<^verbatim>\<open>context.options[0]\<close>: absent, or an object whose
  \<^verbatim>\<open>properties\<close> key is absent or a string.
\<close>

definition propertiesOption :: "string option option \<Rightarrow> string" where
  "propertiesOption options0 =
     (let properties = (case options0 of None \<Rightarrow> [] | Some None \<Rightarrow> [] | Some (Some p) \<Rightarrow> p)
      in if properties \<noteq> ''always'' \<and> properties \<noteq> ''never'' then ''always'' else properties)"

text \<open>
  \<^verbatim>\<open>function report(obj) {
    if (reported.indexOf(obj.node) !== -1) { return; }
    reported.push(obj.node);
    context.report(obj); }\<close>
\<close>

definition reportOnce :: "report \<Rightarrow> rstate \<Rightarrow> rstate" where
  "reportOnce obj st =
     (if rnode obj \<in> set (reported st) then st
      else st\<lparr>reported := reported st @ [rnode obj], reports := reports st @ [obj]\<rparr>)"

text \<open>
  The branch for a parent of type \<^verbatim>\<open>MemberExpression\<close>, the same text in both
  versions of the rule. The result is whether the occurrence counts as a reference (and
  is not reported).
\<close>

definition memberRule :: "ast \<Rightarrow> node \<Rightarrow> node \<Rightarrow> bool option" where
  "memberRule t n p = do {
     obj \<leftarrow> deref t (object p);
     if ntype obj = ''Identifier'' \<and> name obj = name n then Some False
     else do {
       effectiveParent \<leftarrow> deref t (parent p);
       if ntype effectiveParent = ''AssignmentExpression'' then do {
         r \<leftarrow> deref t (right effectiveParent);
         if ntype r \<noteq> ''MemberExpression'' then Some False
         else do {
           l \<leftarrow> deref t (left effectiveParent);
           if ntype l = ''MemberExpression'' then do {
             pr \<leftarrow> deref t (property l);
             Some (name pr \<noteq> name n)
           } else Some True
         }
       } else Some True
     }
   }"

text \<open>
  The branch for a parent of type \<^verbatim>\<open>Property\<close>: true when the node is the key, and
  not the value, of a property of an \<^verbatim>\<open>ObjectPattern\<close>.
\<close>

definition propertyRule :: "ast \<Rightarrow> nat \<Rightarrow> node \<Rightarrow> bool option" where
  "propertyRule t nid p =
     (case parent p of
        None \<Rightarrow> Some False
      | Some g \<Rightarrow> do {
          pp \<leftarrow> t g;
          Some (ntype pp = ''ObjectPattern'' \<and> key p = Some nid \<and> val p \<noteq> Some nid)
        })"

text \<open>
  The \<^verbatim>\<open>Identifier\<close> callback of \<^verbatim>\<open>lib/rules/camelcase.js\<close>.
\<close>

definition camelReport :: "nat \<Rightarrow> node \<Rightarrow> report" where
  "camelReport nid n =
     \<lparr>rnode = nid, loc = None,
      message = ''Identifier '' @ [CHR 0x27] @ ''{{name}}'' @ [CHR 0x27] @ '' is not in camel case.'',
      data = [(''name'', toStr (name n))],
      rfix = Some (ReplaceWithCamelCase nid)\<rparr>"

definition Identifier :: "string \<Rightarrow> ast \<Rightarrow> nat \<Rightarrow> rstate \<Rightarrow> rstate option" where
  "Identifier properties t nid st = do {
     n \<leftarrow> t nid;
     (case isSnakeCase (lastIndex st) (toStr (name n)) of
        (snake, li) \<Rightarrow>
          if \<not> snake then Some (st\<lparr>lastIndex := li\<rparr>)
          else do {
            p \<leftarrow> deref t (parent n);
            let isReference = (ntype p = ''CallExpression'');
            isReference \<leftarrow>
              (if properties \<noteq> ''never'' then
                 if ntype p = ''MemberExpression'' then memberRule t n p
                 else if ntype p = ''Property'' then do {
                   b \<leftarrow> propertyRule t nid p;
                   Some (if b then True else isReference)
                 }
                 else Some isReference
               else Some isReference);
            if isReference then Some (st\<lparr>lastIndex := li\<rparr>)
            else Some (reportOnce (camelReport nid n) (st\<lparr>lastIndex := li\<rparr>))
          })
   }"

text \<open>
  The earlier version of the rule (the second file of
  \<^verbatim>\<open>docs/user-guide/backwards-compatibility.md\<close>): it returns at once under a
  \<^verbatim>\<open>CallExpression\<close>, before the name is tested, and its reports carry no fix.

  \<^verbatim>\<open>function report(node) {
    if (reported.indexOf(node) < 0) {
        reported.push(node);
        context.report(node, "Identifier '{{name}}' is not in camel case.", { name: node.name });
    } }\<close>
\<close>

definition reportNode :: "nat \<Rightarrow> node \<Rightarrow> rstate \<Rightarrow> rstate" where
  "reportNode nid n st =
     (if nid \<notin> set (reported st) then
        st\<lparr>reported := reported st @ [nid],
           reports := reports st @ [(camelReport nid n)\<lparr>rfix := None\<rparr>]\<rparr>
      else st)"

definition Identifier0 :: "string \<Rightarrow> ast \<Rightarrow> nat \<Rightarrow> rstate \<Rightarrow> rstate option" where
  "Identifier0 properties t nid st = do {
     n \<leftarrow> t nid;
     p \<leftarrow> deref t (parent n);
     if ntype p = ''CallExpression'' then Some st
     else
       (case isSnakeCase (lastIndex st) (toStr (name n)) of
          (snake, li) \<Rightarrow>
            if \<not> snake then Some (st\<lparr>lastIndex := li\<rparr>)
            else do {
              skip \<leftarrow>
                (if properties \<noteq> ''never'' then
                   if ntype p = ''MemberExpression'' then memberRule t n p
                   else if ntype p = ''Property'' then propertyRule t nid p
                   else Some False
                 else Some False);
              if skip then Some (st\<lparr>lastIndex := li\<rparr>)
              else Some (reportNode nid n (st\<lparr>lastIndex := li\<rparr>))
            })
   }"

text \<open>
  Modelled from the spec: the traversal dispatcher is not part of the sources. In one
  traversal it calls the callback on the \<^verbatim>\<open>Identifier\<close> nodes it meets, in the order
  given; an exception ends the traversal.
\<close>

fun traverse :: "(nat \<Rightarrow> rstate \<Rightarrow> rstate option) \<Rightarrow> nat list \<Rightarrow> rstate \<Rightarrow> rstate option" where
  "traverse cb [] st = Some st"
| "traverse cb (i # is) st = (case cb i st of None \<Rightarrow> None | Some st' \<Rightarrow> traverse cb is st')"

text \<open>
  Running the fix of a camelcase report:
  \<^verbatim>\<open>fixer.replaceText(node, snakeToCamelCase(node.name))\<close>.
\<close>

definition runCamelFix :: "ast \<Rightarrow> nat \<Rightarrow> edit option" where
  "runCamelFix t nid = do {
     n \<leftarrow> t nid;
     text \<leftarrow> snakeToCamelCase (toStr (name n));
     Some (replaceText n text)
   }"

section \<open>Tokens and the source accessor\<close>

record token =
  ttype :: string
  tvalue :: string
  trange :: "nat \<times> nat"
  startLine :: int
  startColumn :: int
  endLine :: int
  endColumn :: int

text \<open>
  Modelled from the spec: the token/source accessor (\<^verbatim>\<open>context.getSourceCode()\<close>) is
  not part of the sources. It is a read-only view of the tokens and comments of the file,
  in source order; a token is addressed by its position in that list. It answers the
  tokens of a node, the first and last token of a node, the token before a node (comments
  skipped), and the token or comment right after or before a token.
\<close>

type_synonym sourceCode = "token list"

definition isComment :: "token \<Rightarrow> bool" where
  "isComment k = (ttype k = ''Line'' \<or> ttype k = ''Block'')"

definition inside :: "node \<Rightarrow> token \<Rightarrow> bool" where
  "inside n k = (fst (range n) \<le> fst (trange k) \<and> snd (trange k) \<le> snd (range n))"

text \<open>
  Modelled from the spec: \<^verbatim>\<open>sourceCode.getTokens(node)\<close>, the tokens inside the node's
  range, comments left out.
\<close>

definition getTokens :: "sourceCode \<Rightarrow> node \<Rightarrow> token list" where
  "getTokens sc n = filter (\<lambda>k. \<not> isComment k \<and> inside n k) sc"

text \<open>The positions of the tokens that satisfy \<open>P\<close>, in source order.\<close>

definition tokenIndices :: "sourceCode \<Rightarrow> (token \<Rightarrow> bool) \<Rightarrow> nat list" where
  "tokenIndices sc P = filter (\<lambda>i. P (sc ! i)) [0..<length sc]"

text \<open>
  Modelled from the spec: \<^verbatim>\<open>sourceCode.getFirstToken(node)\<close> and
  \<^verbatim>\<open>sourceCode.getLastToken(node)\<close>, the first and the last token inside the node's
  range, \<open>None\<close> when the node has no token.
\<close>

definition getFirstToken :: "sourceCode \<Rightarrow> node \<Rightarrow> nat option" where
  "getFirstToken sc n =
     (case tokenIndices sc (\<lambda>k. \<not> isComment k \<and> inside n k) of
        [] \<Rightarrow> None
      | i # is \<Rightarrow> Some i)"

definition getLastToken :: "sourceCode \<Rightarrow> node \<Rightarrow> nat option" where
  "getLastToken sc n =
     (case rev (tokenIndices sc (\<lambda>k. \<not> isComment k \<and> inside n k)) of
        [] \<Rightarrow> None
      | i # is \<Rightarrow> Some i)"

text \<open>
  Modelled from the spec: \<^verbatim>\<open>sourceCode.getTokenBefore(node)\<close>, the last token that ends
  before the node starts, comments skipped; \<open>None\<close> when there is none.
\<close>

definition getTokenBefore :: "sourceCode \<Rightarrow> node \<Rightarrow> nat option" where
  "getTokenBefore sc n =
     (case rev (tokenIndices sc (\<lambda>k. \<not> isComment k \<and> snd (trange k) \<le> fst (range n))) of
        [] \<Rightarrow> None
      | i # is \<Rightarrow> Some i)"

text \<open>
  Modelled from the spec: \<^verbatim>\<open>sourceCode.getTokenOrCommentAfter\<close> and
  \<^verbatim>\<open>sourceCode.getTokenOrCommentBefore\<close> step from a token to its neighbour in the
  list of tokens and comments. \<open>tokensAfter\<close> and \<open>tokensBefore\<close> are the neighbours
  of the token at position \<open>i\<close> in the order in which repeated steps reach them.
\<close>

definition tokensAfter :: "sourceCode \<Rightarrow> nat \<Rightarrow> token list" where
  "tokensAfter sc i = drop (Suc i) sc"

definition tokensBefore :: "sourceCode \<Rightarrow> nat \<Rightarrow> token list" where
  "tokensBefore sc i = rev (take i sc)"

section \<open>The new-parens rule\<close>

text \<open>
  \<^verbatim>\<open>function isValue(value) { return function(token) { return token.value === value; }; }\<close>
\<close>

definition isValue :: "string \<Rightarrow> token \<Rightarrow> bool" where
  "isValue v k = (tvalue k = v)"

definition newParensReport :: "nat \<Rightarrow> report" where
  "newParensReport nid =
     \<lparr>rnode = nid, loc = None,
      message = ''Missing '' @ [CHR 0x27] @ ''()'' @ [CHR 0x27] @ '' invoking a constructor'',
      data = [], rfix = Some (InsertParensAfter nid)\<rparr>"

text \<open>
  \<^verbatim>\<open>NewExpression: function(node) {
    var tokens = sourceCode.getTokens(node);
    var parens = tokens.some(isValue("(")) && tokens.some(isValue(")"));
    if (!parens) { context.report({ node: node, message: ..., fix: ... }); } }\<close>
\<close>

definition NewExpression :: "sourceCode \<Rightarrow> ast \<Rightarrow> nat \<Rightarrow> report list \<Rightarrow> report list option" where
  "NewExpression sc t nid rs = do {
     n \<leftarrow> t nid;
     let tokens = getTokens sc n;
     let parens = (list_ex (isValue ''('') tokens \<and> list_ex (isValue '')'') tokens);
     if \<not> parens then Some (rs @ [newParensReport nid]) else Some rs
   }"

text \<open>The fix of a new-parens report: \<^verbatim>\<open>fixer.insertTextAfter(node, "()")\<close>.\<close>

definition runNewParensFix :: "ast \<Rightarrow> nat \<Rightarrow> edit option" where
  "runNewParensFix t nid = do { n \<leftarrow> t nid; Some (insertTextAfter n ''()'') }"

section \<open>The valid-typeof rule\<close>







section \<open>The padded-blocks rule\<close>

text \<open>
  The sources hold two versions of the rule (both in the file
  \<^verbatim>\<open>lib/rules/new-parens.js\<close>, after the new-parens rule): the first reports only, the
  second attaches fixes and counts blank lines differently. Definitions of the first
  version end in \<open>1\<close>, of the second in \<open>2\<close>; what both share has no suffix.
\<close>

datatype error = TypeError | NoFirstCase | Unreachable

definition bindE :: "error + 'a \<Rightarrow> ('a \<Rightarrow> error + 'b) \<Rightarrow> error + 'b" where
  "bindE x f = (case x of Inl e \<Rightarrow> Inl e | Inr v \<Rightarrow> f v)"

text \<open>A value that must not be \<^verbatim>\<open>undefined\<close> or \<^verbatim>\<open>null\<close> where it is used.\<close>

definition defined :: "'a option \<Rightarrow> error + 'a" where
  "defined v = (case v of None \<Rightarrow> Inl TypeError | Some x \<Rightarrow> Inr x)"

text \<open>
  \<^verbatim>\<open>context.options[0]\<close> is a string or an object with the keys \<^verbatim>\<open>blocks\<close>,
  \<^verbatim>\<open>switches\<close> and \<^verbatim>\<open>classes\<close>, each of them optional.
\<close>

datatype config = ConfigString string | ConfigObject "string option" "string option" "string option"

record options =
  blocks :: "bool option"
  switches :: "bool option"
  classes :: "bool option"

text \<open>
  \<^verbatim>\<open>var options = {};
  var config = context.options[0] || "always";
  if (typeof config === "string") { options.blocks = config === "always"; }
  else {
    if (config.hasOwnProperty("blocks")) { options.blocks = config.blocks === "always"; }
    if (config.hasOwnProperty("switches")) { options.switches = config.switches === "always"; }
    if (config.hasOwnProperty("classes")) { options.classes = config.classes === "always"; } }\<close>
\<close>

definition create :: "config option \<Rightarrow> options" where
  "create options0 =
     (let config = (case options0 of
                      None \<Rightarrow> ConfigString ''always''
                    | Some c \<Rightarrow> if c = ConfigString [] then ConfigString ''always'' else c)
      in case config of
           ConfigString c \<Rightarrow>
             \<lparr>blocks = Some (c = ''always''), switches = None, classes = None\<rparr>
         | ConfigObject b s c \<Rightarrow>
             \<lparr>blocks = map_option (\<lambda>v. v = ''always'') b,
              switches = map_option (\<lambda>v. v = ''always'') s,
              classes = map_option (\<lambda>v. v = ''always'') c\<rparr>)"

definition ALWAYS_MESSAGE :: string where
  "ALWAYS_MESSAGE = ''Block must be padded by blank lines.''"

definition NEVER_MESSAGE :: string where
  "NEVER_MESSAGE = ''Block must not be padded by blank lines.''"

text \<open>
  \<^verbatim>\<open>function getOpenBrace(node) {
    if (node.type === "SwitchStatement") { return sourceCode.getTokenBefore(node.cases[0]); }
    return sourceCode.getFirstToken(node); }\<close>

  \<open>NoFirstCase\<close> is the failure of reading \<^verbatim>\<open>node.cases[0]\<close> from an empty list.
\<close>

definition getOpenBrace :: "sourceCode \<Rightarrow> ast \<Rightarrow> node \<Rightarrow> error + nat" where
  "getOpenBrace sc t n =
     (if ntype n = ''SwitchStatement'' then
        bindE (defined (cases n)) (\<lambda>cs.
          case cs of
            [] \<Rightarrow> Inl NoFirstCase
          | c # cs' \<Rightarrow> bindE (defined (t c)) (\<lambda>first. defined (getTokenBefore sc first)))
      else defined (getFirstToken sc n))"

text \<open>
  The \<^verbatim>\<open>do ... while\<close> loop of \<^verbatim>\<open>getTokenPadding\<close>: step to the next token or
  comment (the list holds them in the direction of travel) and stop at the first that
  is not a comment on the line \<open>tokenLine\<close>. \<open>lineOf\<close> is \<^verbatim>\<open>loc.start.line\<close> going
  forwards and \<^verbatim>\<open>loc.end.line\<close> going backwards. Running off the token list makes
  \<^verbatim>\<open>adjacentToken.loc\<close> fail.
\<close>

fun adjacent :: "int \<Rightarrow> (token \<Rightarrow> int) \<Rightarrow> token list \<Rightarrow> error + token" where
  "adjacent tokenLine lineOf [] = Inl TypeError"
| "adjacent tokenLine lineOf (k # ks) =
     (if lineOf k = tokenLine \<and> isComment k then adjacent tokenLine lineOf ks else Inr k)"

definition nthToken :: "sourceCode \<Rightarrow> nat \<Rightarrow> error + token" where
  "nthToken sc i = (if i < length sc then Inr (sc ! i) else Inl TypeError)"

text \<open>
  First version:
  \<^verbatim>\<open>nonBlankLine = adjacentToken.loc.start.line;
  blankLines = Math.abs(nonBlankLine - dir - tokenLine);\<close>
\<close>

definition getTokenPadding1 :: "sourceCode \<Rightarrow> nat \<Rightarrow> int \<Rightarrow> error + int" where
  "getTokenPadding1 sc i dir0 =
     bindE (nthToken sc i) (\<lambda>token.
       let tokenLine = (if dir0 = 1 then startLine token else endLine token);
           dir = (if dir0 \<noteq> 1 \<and> dir0 \<noteq> - 1 then 1 else dir0)
       in bindE (if dir = 1 then adjacent tokenLine startLine (tokensAfter sc i)
                 else adjacent tokenLine endLine (tokensBefore sc i))
            (\<lambda>adjacentToken.
               let nonBlankLine = startLine adjacentToken
               in Inr (abs (nonBlankLine - dir - tokenLine))))"

text \<open>
  Second version:
  \<^verbatim>\<open>newLines = dir * (adjacentTokenLine - tokenLine);
  blankLines = newLines - Math.min(newLines, 1);\<close>
\<close>

definition getTokenPadding2 :: "sourceCode \<Rightarrow> nat \<Rightarrow> int \<Rightarrow> error + int" where
  "getTokenPadding2 sc i dir0 =
     bindE (nthToken sc i) (\<lambda>token.
       let tokenLine = (if dir0 = 1 then startLine token else endLine token);
           dir = (if dir0 \<noteq> 1 \<and> dir0 \<noteq> - 1 then 1 else dir0)
       in bindE (if dir = 1 then adjacent tokenLine startLine (tokensAfter sc i)
                 else adjacent tokenLine endLine (tokensBefore sc i))
            (\<lambda>adjacentToken.
               let adjacentTokenLine =
                     (if dir = 1 then startLine adjacentToken else endLine adjacentToken);
                   newLines = dir * (adjacentTokenLine - tokenLine)
               in Inr (newLines - min newLines 1)))"

text \<open>
  \<^verbatim>\<open>function requirePaddingFor(node) {
    switch (node.type) {
      case "BlockStatement": return options.blocks;
      case "SwitchStatement": return options.switches;
      case "ClassBody": return options.classes;
      default: throw new Error("unreachable"); } }\<close>
\<close>

definition requirePaddingFor :: "options \<Rightarrow> node \<Rightarrow> error + bool option" where
  "requirePaddingFor opts n =
     (if ntype n = ''BlockStatement'' then Inr (blocks opts)
      else if ntype n = ''SwitchStatement'' then Inr (switches opts)
      else if ntype n = ''ClassBody'' then Inr (classes opts)
      else Inl Unreachable)"

text \<open>Decimal digits of a number, as string concatenation writes them.\<close>

function showNat :: "nat \<Rightarrow> string" where
  "showNat n =
     (if n < 10 then [''0123456789'' ! n] else showNat (n div 10) @ [''0123456789'' ! (n mod 10)])"
  by pat_completeness auto
termination
  by (relation "measure id") auto

definition showInt :: "int \<Rightarrow> string" where
  "showInt i = (if i < 0 then ''-'' @ showNat (nat (- i)) else showNat (nat i))"

text \<open>
  \<^verbatim>\<open>foundMsg = blockTopPadding > 1 ? " (" + blockTopPadding + " blank lines found)" : "";\<close>
\<close>

definition foundMsg :: "int \<Rightarrow> string" where
  "foundMsg blockTopPadding =
     (if blockTopPadding > 1 then '' ('' @ showInt blockTopPadding @ '' blank lines found)''
      else [])"

text \<open>
  The reports of \<^verbatim>\<open>checkPadding\<close>, once the two brace tokens and the two paddings
  are known. \<open>bottomLine\<close> is the line of the report below a padded block end, where the
  two versions differ; \<open>fixes\<close> says whether the reports carry a fix.
\<close>

definition paddingReports ::
  "bool \<Rightarrow> (int \<Rightarrow> int \<Rightarrow> int) \<Rightarrow> bool option \<Rightarrow> nat \<Rightarrow> nat \<Rightarrow> token \<Rightarrow> nat \<Rightarrow> token
     \<Rightarrow> int \<Rightarrow> int \<Rightarrow> report list" where
  "paddingReports fixes bottomLine require nid oi openBrace ci closeBrace
      blockTopPadding blockBottomPadding =
     (if require = Some True then
        (if blockTopPadding = 0 then
           [\<lparr>rnode = nid, loc = Some (startLine openBrace, startColumn openBrace),
             message = ALWAYS_MESSAGE,
             data = [], rfix = (if fixes then Some (AddPadding oi 1) else None)\<rparr>]
         else []) @
        (if blockBottomPadding = 0 then
           [\<lparr>rnode = nid, loc = Some (endLine closeBrace, endColumn closeBrace - 1),
             message = ALWAYS_MESSAGE,
             data = [], rfix = (if fixes then Some (AddPadding ci (- 1)) else None)\<rparr>]
         else [])
      else
        (if blockTopPadding \<noteq> 0 then
           [\<lparr>rnode = nid, loc = Some (startLine openBrace + 1, 0),
             message = NEVER_MESSAGE @ foundMsg blockTopPadding,
             data = [], rfix = (if fixes then Some (RemovePadding oi 1) else None)\<rparr>]
         else []) @
        (if blockBottomPadding \<noteq> 0 then
           [\<lparr>rnode = nid, loc = Some (bottomLine (endLine closeBrace) blockBottomPadding, 0),
             message = NEVER_MESSAGE @ foundMsg blockTopPadding,
             data = [], rfix = (if fixes then Some (RemovePadding ci (- 1)) else None)\<rparr>]
         else []))"

text \<open>
  \<^verbatim>\<open>function checkPadding(node) {
    var openBrace = getOpenBrace(node),
        closeBrace = sourceCode.getLastToken(node),
        blockTopPadding = getTokenPadding(openBrace, 1),
        blockBottomPadding = getTokenPadding(closeBrace, -1),
        foundMsg = ...;
    if (requirePaddingFor(node)) { ... } else { ... } }\<close>

  First version: the report below a padded block end is at line
  \<^verbatim>\<open>closeBrace.loc.end.line - 1\<close>.
\<close>

definition checkPadding1 ::
  "options \<Rightarrow> sourceCode \<Rightarrow> ast \<Rightarrow> nat \<Rightarrow> node \<Rightarrow> report list \<Rightarrow> error + report list" where
  "checkPadding1 opts sc t nid n rs =
     bindE (getOpenBrace sc t n) (\<lambda>oi.
     bindE (defined (getLastToken sc n)) (\<lambda>ci.
     bindE (getTokenPadding1 sc oi 1) (\<lambda>blockTopPadding.
     bindE (getTokenPadding1 sc ci (- 1)) (\<lambda>blockBottomPadding.
     bindE (requirePaddingFor opts n) (\<lambda>require.
     bindE (nthToken sc oi) (\<lambda>openBrace.
     bindE (nthToken sc ci) (\<lambda>closeBrace.
       Inr (rs @ paddingReports False (\<lambda>line pad. line - 1) require nid oi openBrace ci closeBrace
                  blockTopPadding blockBottomPadding))))))))"

text \<open>
  Second version: the reports carry fixes, and the report below a padded block end is at
  line \<^verbatim>\<open>closeBrace.loc.end.line - blockBottomPadding\<close>.
\<close>

definition checkPadding2 ::
  "options \<Rightarrow> sourceCode \<Rightarrow> ast \<Rightarrow> nat \<Rightarrow> node \<Rightarrow> report list \<Rightarrow> error + report list" where
  "checkPadding2 opts sc t nid n rs =
     bindE (getOpenBrace sc t n) (\<lambda>oi.
     bindE (defined (getLastToken sc n)) (\<lambda>ci.
     bindE (getTokenPadding2 sc oi 1) (\<lambda>blockTopPadding.
     bindE (getTokenPadding2 sc ci (- 1)) (\<lambda>blockBottomPadding.
     bindE (requirePaddingFor opts n) (\<lambda>require.
     bindE (nthToken sc oi) (\<lambda>openBrace.
     bindE (nthToken sc ci) (\<lambda>closeBrace.
       Inr (rs @ paddingReports True (\<lambda>line pad. line - pad) require nid oi openBrace ci closeBrace
                  blockTopPadding blockBottomPadding))))))))"

text \<open>
  The callbacks, the same text in both versions up to the \<^verbatim>\<open>checkPadding\<close> they call:
  \<^verbatim>\<open>rule.SwitchStatement = function(node) {
    if (node.cases.length === 0) { return; }
    checkPadding(node); };\<close>
  and likewise \<^verbatim>\<open>BlockStatement\<close> and \<^verbatim>\<open>ClassBody\<close> on \<^verbatim>\<open>node.body.length\<close>.
\<close>

type_synonym checker = "nat \<Rightarrow> node \<Rightarrow> report list \<Rightarrow> error + report list"

definition SwitchStatement :: "checker \<Rightarrow> nat \<Rightarrow> node \<Rightarrow> report list \<Rightarrow> error + report list" where
  "SwitchStatement checkPadding nid n rs =
     bindE (defined (cases n)) (\<lambda>cs.
       if length cs = 0 then Inr rs else checkPadding nid n rs)"

definition BlockStatement :: "checker \<Rightarrow> nat \<Rightarrow> node \<Rightarrow> report list \<Rightarrow> error + report list" where
  "BlockStatement checkPadding nid n rs =
     bindE (defined (body n)) (\<lambda>b.
       if length b = 0 then Inr rs else checkPadding nid n rs)"

definition ClassBody :: "checker \<Rightarrow> nat \<Rightarrow> node \<Rightarrow> report list \<Rightarrow> error + report list" where
  "ClassBody checkPadding nid n rs =
     bindE (defined (body n)) (\<lambda>b.
       if length b = 0 then Inr rs else checkPadding nid n rs)"

text \<open>
  The rule object that \<^verbatim>\<open>create\<close> returns has a callback for a node type only when
  \<^verbatim>\<open>options\<close> has the matching key.
\<close>

definition registered :: "options \<Rightarrow> string list" where
  "registered opts =
     (if switches opts \<noteq> None then [''SwitchStatement''] else []) @
     (if blocks opts \<noteq> None then [''BlockStatement''] else []) @
     (if classes opts \<noteq> None then [''ClassBody''] else [])"

text \<open>
  Modelled from the spec: the traversal dispatcher is not part of the sources. On one
  node it calls the callback that the rule object holds for the node's type, if there is
  one.
\<close>

definition visit :: "options \<Rightarrow> checker \<Rightarrow> ast \<Rightarrow> nat \<Rightarrow> report list \<Rightarrow> error + report list" where
  "visit opts checkPadding t nid rs =
     bindE (defined (t nid)) (\<lambda>n.
       if ntype n \<in> set (registered opts) then
         if ntype n = ''SwitchStatement'' then SwitchStatement checkPadding nid n rs
         else if ntype n = ''BlockStatement'' then BlockStatement checkPadding nid n rs
         else ClassBody checkPadding nid n rs
       else Inr rs)"

definition paddedBlocks1 ::
  "config option \<Rightarrow> sourceCode \<Rightarrow> ast \<Rightarrow> nat \<Rightarrow> report list \<Rightarrow> error + report list" where
  "paddedBlocks1 options0 sc t nid rs =
     visit (create options0) (checkPadding1 (create options0) sc t) t nid rs"

definition paddedBlocks2 ::
  "config option \<Rightarrow> sourceCode \<Rightarrow> ast \<Rightarrow> nat \<Rightarrow> report list \<Rightarrow> error + report list" where
  "paddedBlocks2 options0 sc t nid rs =
     visit (create options0) (checkPadding2 (create options0) sc t) t nid rs"

section \<open>Example programs\<close>

text \<open>Nodes and tokens of small programs, used to run the rules on concrete input.\<close>

definition mkNode :: "string \<Rightarrow> nat option \<Rightarrow> node" where
  "mkNode ty p = emptyNode\<lparr>ntype := ty, parent := p\<rparr>"

definition ident :: "string \<Rightarrow> nat \<Rightarrow> node" where
  "ident nm p = emptyNode\<lparr>ntype := ''Identifier'', name := Some nm, parent := Some p\<rparr>"

definition tok :: "string \<Rightarrow> string \<Rightarrow> nat \<Rightarrow> int \<Rightarrow> int \<Rightarrow> token" where
  "tok ty v off line col =
     \<lparr>ttype = ty, tvalue = v, trange = (off, off + length v),
      startLine = line, startColumn = col, endLine = line, endColumn = col + int (length v)\<rparr>"

text \<open>\<^verbatim>\<open>x_y; x_y;\<close>: two statements, each an identifier.\<close>

definition astTwice :: ast where
  "astTwice =
     [0 \<mapsto> mkNode ''Program'' None,
      1 \<mapsto> mkNode ''ExpressionStatement'' (Some 0),
      2 \<mapsto> ident ''x_y'' 1,
      3 \<mapsto> mkNode ''ExpressionStatement'' (Some 0),
      4 \<mapsto> ident ''x_y'' 3]"

text \<open>\<^verbatim>\<open>x_y; a_b.a_b;\<close>: node 6 is the property of the member expression 4.\<close>

definition astMember :: ast where
  "astMember =
     [0 \<mapsto> mkNode ''Program'' None,
      1 \<mapsto> mkNode ''ExpressionStatement'' (Some 0),
      2 \<mapsto> ident ''x_y'' 1,
      3 \<mapsto> mkNode ''ExpressionStatement'' (Some 0),
      4 \<mapsto> (mkNode ''MemberExpression'' (Some 3))\<lparr>object := Some 5, property := Some 6\<rparr>,
      5 \<mapsto> ident ''a_b'' 4,
      6 \<mapsto> ident ''a_b'' 4]"

text \<open>
  \<^verbatim>\<open>a_b.a_b;\<close> alone: node 2 is the object and node 3 the property of the member
  expression 1.
\<close>

definition astMemberOnly :: ast where
  "astMemberOnly =
     [0 \<mapsto> mkNode ''ExpressionStatement'' None,
      1 \<mapsto> (mkNode ''MemberExpression'' (Some 0))\<lparr>object := Some 2, property := Some 3\<rparr>,
      2 \<mapsto> ident ''a_b'' 1,
      3 \<mapsto> ident ''a_b'' 1]"

text \<open>\<^verbatim>\<open>x_y; foo.a_b;\<close>: the same with an object of another name.\<close>

definition astMemberOther :: ast where
  "astMemberOther =
     [0 \<mapsto> mkNode ''Program'' None,
      1 \<mapsto> mkNode ''ExpressionStatement'' (Some 0),
      2 \<mapsto> ident ''x_y'' 1,
      3 \<mapsto> mkNode ''ExpressionStatement'' (Some 0),
      4 \<mapsto> (mkNode ''MemberExpression'' (Some 3))\<lparr>object := Some 5, property := Some 6\<rparr>,
      5 \<mapsto> ident ''foo'' 4,
      6 \<mapsto> ident ''a_b'' 4]"

text \<open>
  \<^verbatim>\<open>({ a_b } = obj);\<close>: the shorthand property 4 has the identifier 5 as its key and as
  its value, so the dispatcher meets node 5 twice.
\<close>

definition astShorthand :: ast where
  "astShorthand =
     [0 \<mapsto> mkNode ''Program'' None,
      1 \<mapsto> mkNode ''ExpressionStatement'' (Some 0),
      2 \<mapsto> (mkNode ''AssignmentExpression'' (Some 1))\<lparr>left := Some 3, right := Some 6\<rparr>,
      3 \<mapsto> mkNode ''ObjectPattern'' (Some 2),
      4 \<mapsto> (mkNode ''Property'' (Some 3))\<lparr>key := Some 5, val := Some 5\<rparr>,
      5 \<mapsto> ident ''a_b'' 4,
      6 \<mapsto> ident ''obj'' 2]"


text \<open>
  A \<^verbatim>\<open>new\<close> expression alone in a file: node 2 spans the whole text, which is \<open>n\<close>
  characters long.
\<close>

definition astNew :: "nat \<Rightarrow> ast" where
  "astNew n =
     [0 \<mapsto> mkNode ''Program'' None,
      1 \<mapsto> mkNode ''ExpressionStatement'' (Some 0),
      2 \<mapsto> (mkNode ''NewExpression'' (Some 1))\<lparr>range := (0, n)\<rparr>]"

text \<open>The tokens of \<^verbatim>\<open>new Foo\<close>, \<^verbatim>\<open>new Foo()\<close> and \<^verbatim>\<open>new Foo(1)\<close>.\<close>

definition tokensNewFoo :: sourceCode where
  "tokensNewFoo = [tok ''Keyword'' ''new'' 0 1 0, tok ''Identifier'' ''Foo'' 4 1 4]"

definition tokensNewFooParens :: sourceCode where
  "tokensNewFooParens =
     [tok ''Keyword'' ''new'' 0 1 0, tok ''Identifier'' ''Foo'' 4 1 4,
      tok ''Punctuator'' ''('' 7 1 7, tok ''Punctuator'' '')'' 8 1 8]"

definition tokensNewFooArg :: sourceCode where
  "tokensNewFooArg =
     [tok ''Keyword'' ''new'' 0 1 0, tok ''Identifier'' ''Foo'' 4 1 4,
      tok ''Punctuator'' ''('' 7 1 7, tok ''Numeric'' ''1'' 8 1 8,
      tok ''Punctuator'' '')'' 9 1 9]"

text \<open>
  The tokens of \<^verbatim>\<open>new <a>(</a>\<close>, a constructor call without parentheses whose callee
  is a JSX element with the text \<^verbatim>\<open>(\<close>.
\<close>

definition tokensNewJsx :: sourceCode where
  "tokensNewJsx =
     [tok ''Keyword'' ''new'' 0 1 0, tok ''Punctuator'' ''<'' 4 1 4,
      tok ''JSXIdentifier'' ''a'' 5 1 5, tok ''Punctuator'' ''>'' 6 1 6,
      tok ''JSXText'' ''('' 7 1 7, tok ''Punctuator'' ''<'' 8 1 8,
      tok ''Punctuator'' ''/'' 9 1 9, tok ''JSXIdentifier'' ''a'' 10 1 10,
      tok ''Punctuator'' ''>'' 11 1 11]"

text \<open>
  A block statement alone in a file, with one statement in it: node 1 is the block and
  spans \<open>n\<close> characters. The token lists below are the four tokens of
  \<^verbatim>\<open>{ x; }\<close> laid out over several lines.
\<close>

definition astBlock :: "nat \<Rightarrow> ast" where
  "astBlock n =
     [0 \<mapsto> mkNode ''Program'' None,
      1 \<mapsto> (mkNode ''BlockStatement'' (Some 0))\<lparr>body := Some [2], range := (0, n)\<rparr>,
      2 \<mapsto> mkNode ''ExpressionStatement'' (Some 1)]"

text \<open>\<^verbatim>\<open>{ x; }\<close> on one line.\<close>

definition tokensOneLine :: sourceCode where
  "tokensOneLine =
     [tok ''Punctuator'' ''{'' 0 1 0, tok ''Identifier'' ''x'' 2 1 2,
      tok ''Punctuator'' '';'' 3 1 3, tok ''Punctuator'' ''}'' 5 1 5]"

text \<open>The brace on line 1, the statement on line 2 and the closing brace on line 3.\<close>

definition tokensTight :: sourceCode where
  "tokensTight =
     [tok ''Punctuator'' ''{'' 0 1 0, tok ''Identifier'' ''x'' 4 2 2,
      tok ''Punctuator'' '';'' 5 2 3, tok ''Punctuator'' ''}'' 7 3 0]"

text \<open>
  The brace on line 1, the statement on line 2, two blank lines and the closing brace on
  line 5: no blank line above the statement, two below.
\<close>

definition tokensBottom2 :: sourceCode where
  "tokensBottom2 =
     [tok ''Punctuator'' ''{'' 0 1 0, tok ''Identifier'' ''x'' 4 2 2,
      tok ''Punctuator'' '';'' 5 2 3, tok ''Punctuator'' ''}'' 9 5 0]"

text \<open>
  The brace on line 1, three blank lines, the statement on line 5, two blank lines and
  the closing brace on line 8: three blank lines above the statement, two below.
\<close>

definition tokensTop3Bottom2 :: sourceCode where
  "tokensTop3Bottom2 =
     [tok ''Punctuator'' ''{'' 0 1 0, tok ''Identifier'' ''x'' 7 5 2,
      tok ''Punctuator'' '';'' 8 5 3, tok ''Punctuator'' ''}'' 12 8 0]"

text \<open>
  An empty block, a switch statement without cases and an empty class body, each with
  its two braces on one line.
\<close>

definition emptyBlock :: node where
  "emptyBlock = (mkNode ''BlockStatement'' (Some 0))\<lparr>body := Some [], range := (0, 2)\<rparr>"

definition emptySwitch :: node where
  "emptySwitch = (mkNode ''SwitchStatement'' (Some 0))\<lparr>cases := Some [], range := (0, 12)\<rparr>"

definition emptyClassBody :: node where
  "emptyClassBody = (mkNode ''ClassBody'' (Some 0))\<lparr>body := Some [], range := (8, 10)\<rparr>"

section \<open>The pattern of a snake-cased name\<close>

text \<open>
  The pattern in the words of the rule's description, to compare \<^verbatim>\<open>isSnakeCase\<close> with:
  a leading run of underscores, then a non-empty run of other characters, then one or
  more underscores that are not followed by the end of the name (nor by underscores up to
  the end of the name).
\<close>

definition snakePattern :: "string \<Rightarrow> bool" where
  "snakePattern s =
     (let afterLeading = dropWhile isUnderscore s;
          afterWord = dropWhile notUnderscore afterLeading;
          afterSeparator = dropWhile isUnderscore afterWord
      in afterWord \<noteq> afterLeading \<and> afterSeparator \<noteq> afterWord \<and> afterSeparator \<noteq> [])"

section \<open>Invariant of the camelcase rule state\<close>

text \<open>
  The nodes of the reports handed to \<^verbatim>\<open>context.report\<close> are the \<^verbatim>\<open>reported\<close> array,
  and no node is in it twice.
\<close>

definition consistent :: "rstate \<Rightarrow> bool" where
  "consistent st = (map rnode (reports st) = reported st \<and> distinct (reported st))"

section \<open>Properties of the regular expressions\<close>

text \<open>
  Both patterns start with \<^verbatim>\<open>^\<close>, so a search that starts after index zero finds
  nothing and resets \<^verbatim>\<open>lastIndex\<close>.
\<close>

lemma matchAt_bos: "0 < i \<Longrightarrow> matchAt (seq bos m) s i = None"
  by (simp add: matchAt_def seq_def bos_def)

lemma search_bos: "0 < i \<Longrightarrow> search (seq bos m) s i n = None"
  by (induction n arbitrary: i) (simp_all add: matchAt_bos)

lemma exec_bos: "0 < li \<Longrightarrow> exec (seq bos m) li s = (None, 0)"
  by (simp add: exec_def search_bos)

lemma exec_start: "exec m li s = (Some (i, st), li') \<Longrightarrow> li' = fst st"
  by (auto simp: exec_def split: if_splits option.splits)

lemma exec_bos_index: "exec (seq bos m) 0 s = (Some (i, st), li) \<Longrightarrow> i = 0"
  by (auto simp: exec_def search_bos split: option.splits)

lemma matches_stale: "0 < li \<Longrightarrow> matches (Suc n) (seq bos m) li s = Some []"
  by (simp add: exec_bos)

lemma matches_bos:
  "matches (Suc (Suc n)) (seq bos m) 0 s =
     (case exec (seq bos m) 0 s of (None, li) \<Rightarrow> Some [] | (Some x, li) \<Rightarrow> Some [x])"
proof (cases "exec (seq bos m) 0 s")
  case (Pair r li)
  show ?thesis
  proof (cases r)
    case None
    with Pair show ?thesis by simp
  next
    case (Some x)
    obtain i st where x: "x = (i, st)" by (cases x)
    from Pair Some x have i: "i = 0" by (auto dest: exec_bos_index)
    have "0 < (if li = i then Suc li else li)" using i by simp
    then have "matches (Suc n) (seq bos m) (if li = i then Suc li else li) s = Some []"
      by (rule matches_stale)
    with Pair Some x show ?thesis by (simp del: matches.simps add: matches.simps(2)[of "Suc n"])
  qed
qed

lemma replace_bos_total: "\<exists>r. replace (seq bos m) f s = Some r"
  by (auto simp: replace_def matches_bos simp del: matches.simps split: prod.splits option.splits)

lemma snakeToCamelCase_total: "\<exists>r. snakeToCamelCase s = Some r"
  unfolding snakeToCamelCase_def SNAKE_LETTER_def by (rule replace_bos_total)

text \<open>
  \<^verbatim>\<open>replace\<close> therefore calls \<^verbatim>\<open>exec\<close> at most twice and always returns: the step
  count of \<open>replace\<close> never runs out on \<^verbatim>\<open>SNAKE_LETTER\<close>.
\<close>

lemma isSnakeCase_stale: "0 < li \<Longrightarrow> isSnakeCase li s = (False, 0)"
  by (simp add: isSnakeCase_def test_def NON_SURROUNDING_UNDERSCORE_def exec_bos)

subsection \<open>The name test on a fresh regular expression\<close>

text \<open>
  Greedy repetition of a character class, seen from its continuation: when the
  continuation cannot start at a character of the class, only the whole run is tried;
  in general the repetition succeeds when the continuation does after some part of the
  run.
\<close>

lemma star_skip:
  assumes "\<And>i c cs. P c \<Longrightarrow> k (i, c # cs, caps) = None"
  shows "star P (i, xs, caps) k = k (i + length (takeWhile P xs), dropWhile P xs, caps)"
proof (induction xs arbitrary: i)
  case Nil
  show ?case by simp
next
  case (Cons c cs)
  show ?case
  proof (cases "P c")
    case True
    with Cons[of "Suc i"] assms[OF True, of i cs] show ?thesis
      by (simp split: option.splits)
  next
    case False
    then show ?thesis by simp
  qed
qed

lemma star_success:
  "star P (i, xs, caps) k \<noteq> None \<longleftrightarrow>
     (\<exists>j\<le>length (takeWhile P xs). k (i + j, drop j xs, caps) \<noteq> None)"
proof (induction xs arbitrary: i)
  case Nil
  show ?case by simp
next
  case (Cons c cs)
  show ?case
  proof (cases "P c")
    case False
    then show ?thesis by simp
  next
    case True
    have "star P (i, c # cs, caps) k \<noteq> None \<longleftrightarrow>
        star P (Suc i, cs, caps) k \<noteq> None \<or> k (i, c # cs, caps) \<noteq> None"
      using True by (simp split: option.splits)
    also have "\<dots> \<longleftrightarrow> (\<exists>j\<le>length (takeWhile P cs). k (Suc i + j, drop j cs, caps) \<noteq> None)
        \<or> k (i, c # cs, caps) \<noteq> None"
      by (simp only: Cons)
    also have "\<dots> \<longleftrightarrow> (\<exists>j\<le>length (takeWhile P (c # cs)). k (i + j, drop j (c # cs), caps) \<noteq> None)"
      (is "?L \<longleftrightarrow> ?R")
    proof
      assume ?L
      then show ?R
      proof
        assume "\<exists>j\<le>length (takeWhile P cs). k (Suc i + j, drop j cs, caps) \<noteq> None"
        then obtain j where "j \<le> length (takeWhile P cs)" "k (Suc i + j, drop j cs, caps) \<noteq> None"
          by blast
        then show ?R using True by (intro exI[of _ "Suc j"]) simp
      next
        assume "k (i, c # cs, caps) \<noteq> None"
        then show ?R by (intro exI[of _ 0]) simp
      qed
    next
      assume ?R
      then obtain j where j: "j \<le> length (takeWhile P (c # cs))"
        "k (i + j, drop j (c # cs), caps) \<noteq> None" by blast
      show ?L
      proof (cases j)
        case 0
        with j show ?thesis by simp
      next
        case (Suc j')
        with j True show ?thesis by auto
      qed
    qed
    finally show ?thesis .
  qed
qed

lemma dropWhile_drop_run: "j \<le> length (takeWhile P xs) \<Longrightarrow> dropWhile P (drop j xs) = dropWhile P xs"
proof (induction xs arbitrary: j)
  case Nil
  then show ?case by simp
next
  case (Cons c cs)
  then show ?case by (cases j) (auto split: if_splits)
qed

lemma lookahead_rest:
  "neglook (seq (star isUnderscore) eos) (i, xs, caps) k =
     (if dropWhile isUnderscore xs = [] then None else k (i, xs, caps))"
proof -
  have "star isUnderscore (i, xs, caps) (\<lambda>st'. eos st' Some) =
      (\<lambda>st'. eos st' Some) (i + length (takeWhile isUnderscore xs), dropWhile isUnderscore xs, caps)"
    by (rule star_skip) (simp add: eos_def)
  then show ?thesis by (simp add: neglook_def seq_def eos_def)
qed

lemma plus_Nil: "plus P (i, [], caps) k = None"
  by (simp add: plus_def seq_def)

lemma plus_Cons: "plus P (i, c # cs, caps) k = (if P c then star P (Suc i, cs, caps) k else None)"
  by (simp add: plus_def seq_def)

lemma dropWhile_shorter: "dropWhile P cs \<noteq> c # cs"
proof
  assume "dropWhile P cs = c # cs"
  then have "length (dropWhile P cs) = Suc (length cs)" by simp
  moreover have "length (dropWhile P cs) \<le> length cs" by (rule length_dropWhile_le)
  ultimately show False by simp
qed

lemma separator_success:
  "group g (plus isUnderscore) (i, xs, caps) (\<lambda>st. neglook (seq (star isUnderscore) eos) st Some) \<noteq> None
     \<longleftrightarrow> dropWhile isUnderscore xs \<noteq> xs \<and> dropWhile isUnderscore xs \<noteq> []"
proof (cases xs)
  case Nil
  then show ?thesis by (simp add: group_def plus_Nil)
next
  case (Cons c cs)
  show ?thesis
  proof (cases "isUnderscore c")
    case False
    with Cons show ?thesis by (simp add: group_def plus_Cons)
  next
    case True
    let ?k = "\<lambda>st'. neglook (seq (star isUnderscore) eos)
        (fst st', fst (snd st'), (g, take (fst st' - i) xs) # snd (snd st')) Some"
    have k: "?k (i', xs', caps') \<noteq> None \<longleftrightarrow> dropWhile isUnderscore xs' \<noteq> []" for i' xs' caps'
      by (simp add: lookahead_rest)
    have "group g (plus isUnderscore) (i, xs, caps) (\<lambda>st. neglook (seq (star isUnderscore) eos) st Some) =
        star isUnderscore (Suc i, cs, caps) ?k"
      using Cons True by (simp add: group_def plus_Cons)
    then have "group g (plus isUnderscore) (i, xs, caps) (\<lambda>st. neglook (seq (star isUnderscore) eos) st Some) \<noteq> None
      \<longleftrightarrow> (\<exists>j\<le>length (takeWhile isUnderscore cs). dropWhile isUnderscore (drop j cs) \<noteq> [])"
      by (simp only: star_success k)
    also have "\<dots> \<longleftrightarrow> dropWhile isUnderscore cs \<noteq> []"
    proof
      assume "\<exists>j\<le>length (takeWhile isUnderscore cs). dropWhile isUnderscore (drop j cs) \<noteq> []"
      then show "dropWhile isUnderscore cs \<noteq> []" by (auto simp only: dropWhile_drop_run)
    next
      assume "dropWhile isUnderscore cs \<noteq> []"
      then show "\<exists>j\<le>length (takeWhile isUnderscore cs). dropWhile isUnderscore (drop j cs) \<noteq> []"
        by (intro exI[of _ 0]) simp
    qed
    finally show ?thesis using Cons True by (simp add: dropWhile_shorter)
  qed
qed

lemma word_success:
  "plus notUnderscore (i, xs, caps)
      (\<lambda>st. group g (plus isUnderscore) st (\<lambda>st. neglook (seq (star isUnderscore) eos) st Some)) \<noteq> None
   \<longleftrightarrow> dropWhile notUnderscore xs \<noteq> xs
       \<and> dropWhile isUnderscore (dropWhile notUnderscore xs) \<noteq> dropWhile notUnderscore xs
       \<and> dropWhile isUnderscore (dropWhile notUnderscore xs) \<noteq> []"
proof (cases xs)
  case Nil
  then show ?thesis by (simp add: plus_Nil)
next
  case (Cons c cs)
  show ?thesis
  proof (cases "notUnderscore c")
    case False
    with Cons show ?thesis by (simp add: plus_Cons)
  next
    case True
    let ?k = "\<lambda>st. group g (plus isUnderscore) st (\<lambda>st. neglook (seq (star isUnderscore) eos) st Some)"
    have fail: "\<And>i c cs. notUnderscore c \<Longrightarrow> ?k (i, c # cs, caps) = None"
      by (simp add: group_def plus_Cons notUnderscore_def isUnderscore_def)
    have "star notUnderscore (Suc i, cs, caps) ?k =
        ?k (Suc i + length (takeWhile notUnderscore cs), dropWhile notUnderscore cs, caps)"
      by (rule star_skip) (rule fail)
    then have "plus notUnderscore (i, xs, caps) ?k =
        ?k (Suc i + length (takeWhile notUnderscore cs), dropWhile notUnderscore cs, caps)"
      using Cons True by (simp only: plus_Cons if_True)
    then have "plus notUnderscore (i, xs, caps) ?k \<noteq> None \<longleftrightarrow>
        dropWhile isUnderscore (dropWhile notUnderscore cs) \<noteq> dropWhile notUnderscore cs \<and>
        dropWhile isUnderscore (dropWhile notUnderscore cs) \<noteq> []"
      by (simp only: separator_success)
    then show ?thesis using Cons True by (simp add: dropWhile_shorter del: not_None_eq)
  qed
qed

lemma pattern_success:
  "matchAt NON_SURROUNDING_UNDERSCORE s 0 \<noteq> None \<longleftrightarrow> snakePattern s"
proof -
  let ?k = "\<lambda>st. plus notUnderscore st
      (\<lambda>st. group 1 (plus isUnderscore) st (\<lambda>st. neglook (seq (star isUnderscore) eos) st Some))"
  have fail: "\<And>i c cs. isUnderscore c \<Longrightarrow> ?k (i, c # cs, []) = None"
    by (simp add: plus_Cons notUnderscore_def isUnderscore_def)
  have "star isUnderscore (0, s, []) ?k =
      ?k (0 + length (takeWhile isUnderscore s), dropWhile isUnderscore s, [])"
    by (rule star_skip) (rule fail)
  moreover have "matchAt NON_SURROUNDING_UNDERSCORE s 0 = star isUnderscore (0, s, []) ?k"
    by (simp add: matchAt_def NON_SURROUNDING_UNDERSCORE_def seq_def bos_def)
  ultimately have "matchAt NON_SURROUNDING_UNDERSCORE s 0 =
      ?k (0 + length (takeWhile isUnderscore s), dropWhile isUnderscore s, [])"
    by (rule trans[rotated])
  then have "matchAt NON_SURROUNDING_UNDERSCORE s 0 \<noteq> None \<longleftrightarrow>
      dropWhile notUnderscore (dropWhile isUnderscore s) \<noteq> dropWhile isUnderscore s \<and>
      dropWhile isUnderscore (dropWhile notUnderscore (dropWhile isUnderscore s)) \<noteq>
        dropWhile notUnderscore (dropWhile isUnderscore s) \<and>
      dropWhile isUnderscore (dropWhile notUnderscore (dropWhile isUnderscore s)) \<noteq> []"
    by (simp only: word_success)
  then show ?thesis
    by (simp only: snakePattern_def Let_def)
qed

text \<open>
  With \<^verbatim>\<open>lastIndex\<close> zero, \<^verbatim>\<open>isSnakeCase\<close> holds exactly for the names of the pattern
  that are not all upper-case.
\<close>

lemma test_bos_fresh: "fst (test (seq bos m) 0 s) = (matchAt (seq bos m) s 0 \<noteq> None)"
  by (cases "matchAt (seq bos m) s 0") (auto simp: test_def exec_def search_bos)

lemma test_fresh: "fst (test NON_SURROUNDING_UNDERSCORE 0 s) = snakePattern s"
proof -
  have "fst (test NON_SURROUNDING_UNDERSCORE 0 s) = (matchAt NON_SURROUNDING_UNDERSCORE s 0 \<noteq> None)"
    by (simp only: NON_SURROUNDING_UNDERSCORE_def test_bos_fresh)
  then show ?thesis by (simp only: pattern_success)
qed

lemma isSnakeCase_fresh:
  "fst (isSnakeCase 0 s) = (snakePattern s \<and> \<not> isUpperCase s)"
proof (cases "test NON_SURROUNDING_UNDERSCORE 0 s")
  case (Pair b li)
  with test_fresh[of s] have "b = snakePattern s" by simp
  with Pair show ?thesis by (simp add: isSnakeCase_def)
qed

section \<open>Properties of the camelcase rule\<close>

text \<open>
  C1. \<^verbatim>\<open>snakeToCamelCase\<close> turns \<^verbatim>\<open>foo_bar\<close> into \<^verbatim>\<open>fooBar\<close>, but it rewrites only
  the first underscore run after the first word: \<^verbatim>\<open>_foo_bar_baz_\<close> becomes
  \<^verbatim>\<open>_fooBar_baz_\<close>, not \<^verbatim>\<open>_fooBarBaz_\<close>, and \<^verbatim>\<open>__x__y__\<close> becomes \<^verbatim>\<open>__x_y__\<close>. The
  pattern is anchored at the start of the name, so the \<^verbatim>\<open>g\<close> flag finds no second
  match.
\<close>

theorem snakeToCamelCase_first_run_only:
  "snakeToCamelCase ''foo_bar'' = Some ''fooBar'' \<and>
   snakeToCamelCase ''_foo_bar_baz_'' = Some ''_fooBar_baz_'' \<and>
   snakeToCamelCase ''__x__y__'' = Some ''__x_y__''"
  by code_simp

text \<open>
  C2. The output of the fix can still be snake-cased: \<^verbatim>\<open>foo_bar_baz\<close> is rewritten to
  \<^verbatim>\<open>fooBar_baz\<close> and \<^verbatim>\<open>x_y_\<close> is left as it is, and a fresh instance of the rule
  (\<^verbatim>\<open>lastIndex\<close> zero) classifies both results as snake-cased.
\<close>

theorem snakeToCamelCase_output_still_snake:
  "snakeToCamelCase ''foo_bar_baz'' = Some ''fooBar_baz'' \<and>
   isSnakeCase 0 ''fooBar_baz'' = (True, 7) \<and>
   snakeToCamelCase ''x_y_'' = Some ''x_y_'' \<and>
   isSnakeCase 0 ''x_y_'' = (True, 2)"
  by code_simp

text \<open>
  C3. The answer of \<^verbatim>\<open>isSnakeCase\<close> depends on the \<^verbatim>\<open>lastIndex\<close> that the previous
  call left in the regular expression. Each name of the two lists in the rule's comment
  gets the documented answer from a fresh regular expression; but the call right after a
  successful one answers false: \<^verbatim>\<open>x_y\<close> is snake-cased for a fresh rule instance and
  not snake-cased for the next call. Linting \<^verbatim>\<open>x_y; x_y;\<close> reports the first
  identifier only, in both versions of the rule.
\<close>

theorem isSnakeCase_second_call:
  "map (\<lambda>s. fst (isSnakeCase 0 s)) [''_x'', ''_x_'', ''x_'', ''__x'', ''x__'', ''__x__''] =
     [False, False, False, False, False, False] \<and>
   map (\<lambda>s. fst (isSnakeCase 0 s))
     [''x_y'', ''_x_y'', ''_x_y_'', ''__x__y__'', ''x_y_'', ''x_y__'', ''x__y__''] =
     [True, True, True, True, True, True, True] \<and>
   isSnakeCase (lastIndex initial) ''x_y'' = (True, 2) \<and>
   isSnakeCase 2 ''x_y'' = (False, 0) \<and>
   map_option (map rnode \<circ> reports)
     (traverse (Identifier ''always'' astTwice) [2, 4] initial) = Some [2] \<and>
   map_option (map rnode \<circ> reports)
     (traverse (Identifier0 ''always'' astTwice) [2, 4] initial) = Some [2]"
  by code_simp

subsection \<open>Reported nodes\<close>

lemma consistent_initial: "consistent initial"
  by (simp add: consistent_def initial_def)

lemma consistent_lastIndex: "consistent st \<Longrightarrow> consistent (st\<lparr>lastIndex := li\<rparr>)"
  by (simp add: consistent_def)

lemma consistent_reportOnce: "consistent st \<Longrightarrow> consistent (reportOnce obj st)"
  by (auto simp: consistent_def reportOnce_def)

lemma consistent_reportNode: "consistent st \<Longrightarrow> consistent (reportNode nid n st)"
  by (auto simp: consistent_def reportNode_def camelReport_def)

lemma consistent_Identifier:
  "consistent st \<Longrightarrow> Identifier properties t nid st = Some st' \<Longrightarrow> consistent st'"
  by (auto simp: Identifier_def Let_def consistent_lastIndex consistent_reportOnce
      split: bind_splits prod.splits if_splits)

lemma consistent_Identifier0:
  "consistent st \<Longrightarrow> Identifier0 properties t nid st = Some st' \<Longrightarrow> consistent st'"
  by (auto simp: Identifier0_def Let_def consistent_lastIndex consistent_reportNode
      split: bind_splits prod.splits if_splits)

lemma consistent_traverse:
  "(\<And>i s s'. consistent s \<Longrightarrow> cb i s = Some s' \<Longrightarrow> consistent s') \<Longrightarrow>
   consistent st \<Longrightarrow> traverse cb ids st = Some st' \<Longrightarrow> consistent st'"
proof (induction ids arbitrary: st)
  case Nil
  then show ?case by simp
next
  case (Cons i ids)
  from Cons.prems(3) obtain s1 where s1: "cb i st = Some s1" and rest: "traverse cb ids s1 = Some st'"
    by (auto split: option.splits)
  from Cons.prems(1)[OF Cons.prems(2) s1] have "consistent s1" .
  from Cons.IH[OF Cons.prems(1) this rest] show ?case by simp
qed

lemma distinct_count: "distinct (map f xs) \<Longrightarrow> length (filter (\<lambda>x. f x = a) xs) \<le> 1"
  by (induction xs) (auto simp: filter_empty_conv image_iff)

lemma consistent_count: "consistent st \<Longrightarrow> length (filter (\<lambda>r. rnode r = nid) (reports st)) \<le> 1"
  by (rule distinct_count) (simp add: consistent_def)

text \<open>
  C8. A node is reported at most once in a traversal. The report helper of either version
  adds nothing for a node that is already in \<^verbatim>\<open>reported\<close>, and after any sequence of
  \<^verbatim>\<open>Identifier\<close> callbacks from the initial state the reports hold at most one report for
  any node.
\<close>

theorem camelcase_reports_once:
  "(rnode obj \<in> set (reported st) \<longrightarrow> reportOnce obj st = st) \<and>
   (nid \<in> set (reported st) \<longrightarrow> reportNode nid n st = st) \<and>
   (traverse (Identifier properties t) ids initial = Some st' \<longrightarrow>
      length (filter (\<lambda>r. rnode r = nid) (reports st')) \<le> 1) \<and>
   (traverse (Identifier0 properties t) ids initial = Some st' \<longrightarrow>
      length (filter (\<lambda>r. rnode r = nid) (reports st')) \<le> 1)"
proof (intro conjI impI)
  assume "rnode obj \<in> set (reported st)"
  then show "reportOnce obj st = st" by (simp add: reportOnce_def)
next
  assume "nid \<in> set (reported st)"
  then show "reportNode nid n st = st" by (simp add: reportNode_def)
next
  assume tr: "traverse (Identifier properties t) ids initial = Some st'"
  have "consistent st'"
    by (rule consistent_traverse[OF _ consistent_initial tr]) (rule consistent_Identifier)
  then show "length (filter (\<lambda>r. rnode r = nid) (reports st')) \<le> 1"
    by (rule consistent_count)
next
  assume tr: "traverse (Identifier0 properties t) ids initial = Some st'"
  have "consistent st'"
    by (rule consistent_traverse[OF _ consistent_initial tr]) (rule consistent_Identifier0)
  then show "length (filter (\<lambda>r. rnode r = nid) (reports st')) \<le> 1"
    by (rule consistent_count)
qed

text \<open>
  The shorthand pattern of \<^verbatim>\<open>({ a_b } = obj);\<close>: the dispatcher meets the identifier
  twice, and either version of the rule reports it once.
\<close>

theorem camelcase_reports_once_witness:
  "traverse (Identifier ''always'' astShorthand) [5, 5, 6] initial =
     Some \<lparr>reported = [5], lastIndex = 0, reports = [camelReport 5 (ident ''a_b'' 4)]\<rparr> \<and>
   traverse (Identifier0 ''always'' astShorthand) [5, 5, 6] initial =
     Some \<lparr>reported = [5], lastIndex = 0, reports = [(camelReport 5 (ident ''a_b'' 4))\<lparr>rfix := None\<rparr>]\<rparr> \<and>
   length (filter (\<lambda>r. rnode r = 5) [camelReport 5 (ident ''a_b'' 4)]) \<le> 1 \<and>
   length (filter (\<lambda>r. rnode r = 5) [(camelReport 5 (ident ''a_b'' 4))\<lparr>rfix := None\<rparr>]) \<le> 1 \<and>
   5 \<in> set (reported \<lparr>reported = [5], lastIndex = 0, reports = [camelReport 5 (ident ''a_b'' 4)]\<rparr>) \<and>
   reportOnce (camelReport 5 (ident ''a_b'' 4))
     \<lparr>reported = [5], lastIndex = 0, reports = [camelReport 5 (ident ''a_b'' 4)]\<rparr> =
     \<lparr>reported = [5], lastIndex = 0, reports = [camelReport 5 (ident ''a_b'' 4)]\<rparr> \<and>
   reportNode 5 (ident ''a_b'' 4)
     \<lparr>reported = [5], lastIndex = 0, reports = [camelReport 5 (ident ''a_b'' 4)]\<rparr> =
     \<lparr>reported = [5], lastIndex = 0, reports = [camelReport 5 (ident ''a_b'' 4)]\<rparr>"
proof -
  let ?r = "camelReport 5 (ident ''a_b'' 4)"
  let ?s = "\<lparr>reported = [5], lastIndex = 0, reports = [?r]\<rparr>"
  let ?u = "\<lparr>reported = [5], lastIndex = 0, reports = [?r\<lparr>rfix := None\<rparr>]\<rparr>"
  have t1: "traverse (Identifier ''always'' astShorthand) [5, 5, 6] initial = Some ?s"
    by code_simp
  have t2: "traverse (Identifier0 ''always'' astShorthand) [5, 5, 6] initial = Some ?u"
    by code_simp
  have m1: "rnode ?r \<in> set (reported ?s)" by (simp add: camelReport_def)
  have m2: "5 \<in> set (reported ?s)" by simp
  note inst = camelcase_reports_once[of "?r" "?s" 5 "ident ''a_b'' 4" "''always''" astShorthand "[5, 5, 6]" "?s"]
  note inst0 = camelcase_reports_once[of "?r" "?s" 5 "ident ''a_b'' 4" "''always''" astShorthand "[5, 5, 6]" "?u"]
  from inst m1 m2 t1 have a: "reportOnce ?r ?s = ?s" "reportNode 5 (ident ''a_b'' 4) ?s = ?s"
    "length (filter (\<lambda>r. rnode r = 5) (reports ?s)) \<le> 1" by blast+
  from inst0 t2 have b: "length (filter (\<lambda>r. rnode r = 5) (reports ?u)) \<le> 1" by blast
  from a b t1 t2 m2 show ?thesis by simp
qed

subsection \<open>Member expressions\<close>

lemma memberRule_other:
  assumes "deref t (object p) = Some obj"
    and "\<not> (ntype obj = ''Identifier'' \<and> name obj = name n)"
    and "deref t (parent p) = Some ep"
    and "ntype ep \<noteq> ''AssignmentExpression''"
  shows "memberRule t n p = Some True"
  using assms by (simp add: memberRule_def)

text \<open>
  With \<^verbatim>\<open>properties\<close> other than \<^verbatim>\<open>never\<close>, an identifier in the property position
  of a member expression is not reported when the object of the member expression is not
  an identifier of the same name and the expression around the member expression is not
  an assignment. This holds for both versions of the rule, and for every name,
  snake-cased or not.
\<close>

theorem camelcase_property_position:
  assumes "properties \<noteq> ''never''"
    and "t nid = Some n"
    and "deref t (parent n) = Some p"
    and "ntype p = ''MemberExpression''"
    and "property p = Some nid"
    and "deref t (object p) = Some obj"
    and "\<not> (ntype obj = ''Identifier'' \<and> name obj = name n)"
    and "deref t (parent p) = Some ep"
    and "ntype ep \<noteq> ''AssignmentExpression''"
  shows "(\<exists>st'. Identifier properties t nid st = Some st' \<and> reports st' = reports st) \<and>
         (\<exists>st'. Identifier0 properties t nid st = Some st' \<and> reports st' = reports st)"
proof -
  obtain b li where sn: "isSnakeCase (lastIndex st) (toStr (name n)) = (b, li)"
    by (cases "isSnakeCase (lastIndex st) (toStr (name n))")
  have m: "memberRule t n p = Some True"
    by (rule memberRule_other[OF assms(6-9)])
  have 1: "Identifier properties t nid st = Some (st\<lparr>lastIndex := li\<rparr>)"
    using assms(1-4) sn m by (simp add: Identifier_def)
  have 2: "Identifier0 properties t nid st = Some (st\<lparr>lastIndex := li\<rparr>)"
    using assms(1-4) sn m by (simp add: Identifier0_def)
  from 1 2 show ?thesis by simp
qed

text \<open>
  The property \<^verbatim>\<open>a_b\<close> of \<^verbatim>\<open>foo.a_b\<close>, snake-cased for a fresh rule instance, is
  not reported.
\<close>

theorem camelcase_property_position_witness:
  "isSnakeCase (lastIndex initial) ''a_b'' = (True, 2) \<and>
   map_option reports (Identifier ''always'' astMemberOther 6 initial) = Some [] \<and>
   map_option reports (Identifier0 ''always'' astMemberOther 6 initial) = Some []"
proof -
  let ?n = "ident ''a_b'' 4"
  let ?p = "(mkNode ''MemberExpression'' (Some 3))\<lparr>object := Some 5, property := Some 6\<rparr>"
  have h1: "''always'' \<noteq> ''never''" by simp
  have h2: "astMemberOther 6 = Some ?n" by (simp add: astMemberOther_def)
  have h4: "deref astMemberOther (parent ?n) = Some ?p"
    by (simp add: astMemberOther_def deref_def ident_def emptyNode_def)
  have h5: "ntype ?p = ''MemberExpression''" by (simp add: mkNode_def)
  have h6: "property ?p = Some 6" by simp
  have h7: "deref astMemberOther (object ?p) = Some (ident ''foo'' 4)"
    by (simp add: astMemberOther_def deref_def)
  have h8: "\<not> (ntype (ident ''foo'' 4) = ''Identifier'' \<and> name (ident ''foo'' 4) = name ?n)"
    by (simp add: ident_def emptyNode_def)
  have h9: "deref astMemberOther (parent ?p) = Some (mkNode ''ExpressionStatement'' (Some 0))"
    by (simp add: astMemberOther_def deref_def mkNode_def emptyNode_def)
  have h10: "ntype (mkNode ''ExpressionStatement'' (Some 0)) \<noteq> ''AssignmentExpression''"
    by (simp add: mkNode_def)
  have sn: "isSnakeCase (lastIndex initial) ''a_b'' = (True, 2)" by code_simp
  from camelcase_property_position[where st = initial, OF h1 h2 h4 h5 h6 h7 h8 h9 h10] sn
  show ?thesis by (auto simp: initial_def)
qed

text \<open>
  C7. The branch commented ``Always report underscored object names'' compares the name
  of the object with the name of the node instead of the two nodes, so it also takes the
  property of a member expression whose object has the same name. In
  \<^verbatim>\<open>x_y; a_b.a_b;\<close> node 6, the property of the member expression 4 whose parent is an
  expression statement, is reported: by a traversal of the file, and by the callback run
  on a fresh instance, in both versions of the rule. In \<^verbatim>\<open>a_b.a_b;\<close> alone the
  property is not reported, but only because the name test answers false right after its
  success on the object.
\<close>

theorem camelcase_property_same_name_reported:
  "astMember 6 = Some (ident ''a_b'' 4) \<and>
   map_option ntype (deref astMember (parent (ident ''a_b'' 4))) = Some ''MemberExpression'' \<and>
   map_option property (deref astMember (parent (ident ''a_b'' 4))) = Some (Some 6) \<and>
   map_option ntype (deref astMember (Some 3)) = Some ''ExpressionStatement'' \<and>
   map_option (map rnode \<circ> reports)
     (traverse (Identifier ''always'' astMember) [2, 5, 6] initial) = Some [2, 6] \<and>
   map_option (map rnode \<circ> reports)
     (traverse (Identifier0 ''always'' astMember) [2, 5, 6] initial) = Some [2, 6] \<and>
   map_option (map rnode \<circ> reports) (Identifier ''always'' astMember 6 initial) = Some [6] \<and>
   map_option (map rnode \<circ> reports) (Identifier0 ''always'' astMember 6 initial) = Some [6] \<and>
   map_option (map rnode \<circ> reports)
     (traverse (Identifier ''always'' astMemberOnly) [2, 3] initial) = Some [2] \<and>
   map_option (map rnode \<circ> reports)
     (traverse (Identifier0 ''always'' astMemberOnly) [2, 3] initial) = Some [2] \<and>
   map_option (map rnode \<circ> reports)
     (Identifier ''always'' astMemberOnly 3 (initial\<lparr>lastIndex := 2\<rparr>)) = Some [] \<and>
   map_option (map rnode \<circ> reports) (Identifier ''always'' astMemberOnly 3 initial) = Some [3]"
  by code_simp

section \<open>Properties of the padded-blocks rule\<close>

text \<open>
  C4. Under \<^verbatim>\<open>never\<close>, the report for the lower end of a block takes its blank-line
  count from the upper end. A block with no blank line above its statement and two below
  gets the report for the lower end without any count, in both versions of the rule; a
  block with three blank lines above and two below gets ``3 blank lines found'' for both
  ends.
\<close>

theorem padded_blocks_bottom_message:
  "paddedBlocks1 (Some (ConfigString ''never'')) tokensBottom2 (astBlock 10) 1 [] =
     Inr [\<lparr>rnode = 1, loc = Some (4, 0),
           message = ''Block must not be padded by blank lines.'',
           data = [], rfix = None\<rparr>] \<and>
   paddedBlocks2 (Some (ConfigString ''never'')) tokensBottom2 (astBlock 10) 1 [] =
     Inr [\<lparr>rnode = 1, loc = Some (3, 0),
           message = ''Block must not be padded by blank lines.'',
           data = [], rfix = Some (RemovePadding 3 (- 1))\<rparr>] \<and>
   getTokenPadding1 tokensTop3Bottom2 3 (- 1) = Inr 2 \<and>
   getTokenPadding2 tokensTop3Bottom2 3 (- 1) = Inr 2 \<and>
   map_sum id (map message)
     (paddedBlocks1 (Some (ConfigString ''never'')) tokensTop3Bottom2 (astBlock 13) 1 []) =
     Inr [''Block must not be padded by blank lines. (3 blank lines found)'',
          ''Block must not be padded by blank lines. (3 blank lines found)''] \<and>
   map_sum id (map message)
     (paddedBlocks2 (Some (ConfigString ''never'')) tokensTop3Bottom2 (astBlock 13) 1 []) =
     Inr [''Block must not be padded by blank lines. (3 blank lines found)'',
          ''Block must not be padded by blank lines. (3 blank lines found)'']"
  by code_simp

subsection \<open>Empty blocks\<close>

lemma bindE_Inl_iff: "bindE x f = Inl e \<longleftrightarrow> x = Inl e \<or> (\<exists>v. x = Inr v \<and> f v = Inl e)"
  by (cases x) (simp_all add: bindE_def)

lemma defined_not_NoFirstCase: "defined v \<noteq> Inl NoFirstCase"
  by (cases v) (simp_all add: defined_def)

lemma nthToken_not_NoFirstCase: "nthToken sc i \<noteq> Inl NoFirstCase"
  by (simp add: nthToken_def)

lemma adjacent_not_NoFirstCase: "adjacent l f ks \<noteq> Inl NoFirstCase"
  by (induction ks) simp_all

lemma getTokenPadding1_not_NoFirstCase: "getTokenPadding1 sc i d \<noteq> Inl NoFirstCase"
  by (auto simp: getTokenPadding1_def bindE_Inl_iff Let_def nthToken_not_NoFirstCase
      adjacent_not_NoFirstCase)

lemma getTokenPadding2_not_NoFirstCase: "getTokenPadding2 sc i d \<noteq> Inl NoFirstCase"
  by (auto simp: getTokenPadding2_def bindE_Inl_iff Let_def nthToken_not_NoFirstCase
      adjacent_not_NoFirstCase)

lemma requirePaddingFor_not_NoFirstCase: "requirePaddingFor opts n \<noteq> Inl NoFirstCase"
  by (simp add: requirePaddingFor_def)

lemma getOpenBrace_NoFirstCase:
  assumes "getOpenBrace sc t n = Inl NoFirstCase"
  shows "ntype n = ''SwitchStatement'' \<and> cases n = Some []"
proof -
  from assms have sw: "ntype n = ''SwitchStatement''"
    by (auto simp: getOpenBrace_def defined_not_NoFirstCase split: if_splits)
  have "cases n = Some []"
  proof (cases "cases n")
    case None
    with assms sw show ?thesis by (simp add: getOpenBrace_def bindE_def defined_def)
  next
    case (Some cs)
    with assms sw show ?thesis
      by (cases cs) (auto simp: getOpenBrace_def bindE_def defined_def split: option.splits)
  qed
  with sw show ?thesis by simp
qed

lemma checkPadding1_NoFirstCase:
  "checkPadding1 opts sc t nid n rs = Inl NoFirstCase \<Longrightarrow>
   ntype n = ''SwitchStatement'' \<and> cases n = Some []"
  by (auto simp: checkPadding1_def bindE_Inl_iff defined_not_NoFirstCase
      getTokenPadding1_not_NoFirstCase requirePaddingFor_not_NoFirstCase nthToken_not_NoFirstCase
      dest: getOpenBrace_NoFirstCase)

lemma checkPadding2_NoFirstCase:
  "checkPadding2 opts sc t nid n rs = Inl NoFirstCase \<Longrightarrow>
   ntype n = ''SwitchStatement'' \<and> cases n = Some []"
  by (auto simp: checkPadding2_def bindE_Inl_iff defined_not_NoFirstCase
      getTokenPadding2_not_NoFirstCase requirePaddingFor_not_NoFirstCase nthToken_not_NoFirstCase
      dest: getOpenBrace_NoFirstCase)

lemma visit_not_NoFirstCase:
  assumes "\<And>n. chk nid n rs = Inl NoFirstCase \<Longrightarrow> ntype n = ''SwitchStatement'' \<and> cases n = Some []"
  shows "visit opts chk t nid rs \<noteq> Inl NoFirstCase"
proof
  assume v: "visit opts chk t nid rs = Inl NoFirstCase"
  then obtain n where n: "t nid = Some n"
    by (cases "t nid") (simp_all add: visit_def bindE_def defined_def)
  show False
  proof (cases "ntype n = ''SwitchStatement''")
    case True
    with v n show False
      by (auto simp: visit_def SwitchStatement_def bindE_def defined_def
          split: if_splits option.splits dest: assms)
  next
    case False
    with v n show False
      by (auto simp: visit_def BlockStatement_def ClassBody_def bindE_def defined_def
          split: if_splits option.splits dest: assms)
  qed
qed

text \<open>
  C9. A switch statement without cases, a block statement with an empty body and a class
  body with an empty body are not checked: the callbacks return at once, whatever
  \<^verbatim>\<open>checkPadding\<close> would do, and so the rule leaves the reports as they are on such a
  node, under every configuration and in both versions. The read of
  \<^verbatim>\<open>node.cases[0]\<close> in \<^verbatim>\<open>getOpenBrace\<close> never meets an empty list: the rule run on
  any node never fails with \<open>NoFirstCase\<close>.
\<close>

theorem padded_blocks_empty_not_checked:
  "(cases n = Some [] \<longrightarrow> SwitchStatement chk nid n rs = Inr rs) \<and>
   (body n = Some [] \<longrightarrow> BlockStatement chk nid n rs = Inr rs \<and> ClassBody chk nid n rs = Inr rs) \<and>
   (t nid = Some n \<and>
    (ntype n = ''SwitchStatement'' \<and> cases n = Some [] \<or>
     ntype n = ''BlockStatement'' \<and> body n = Some [] \<or>
     ntype n = ''ClassBody'' \<and> body n = Some []) \<longrightarrow>
    paddedBlocks1 options0 sc t nid rs = Inr rs \<and> paddedBlocks2 options0 sc t nid rs = Inr rs) \<and>
   paddedBlocks1 options0 sc t nid rs \<noteq> Inl NoFirstCase \<and>
   paddedBlocks2 options0 sc t nid rs \<noteq> Inl NoFirstCase"
proof (intro conjI impI)
  assume "cases n = Some []"
  then show "SwitchStatement chk nid n rs = Inr rs"
    by (simp add: SwitchStatement_def bindE_def defined_def)
next
  assume "body n = Some []"
  then show "BlockStatement chk nid n rs = Inr rs" "ClassBody chk nid n rs = Inr rs"
    by (simp_all add: BlockStatement_def ClassBody_def bindE_def defined_def)
next
  assume a: "t nid = Some n \<and>
    (ntype n = ''SwitchStatement'' \<and> cases n = Some [] \<or>
     ntype n = ''BlockStatement'' \<and> body n = Some [] \<or>
     ntype n = ''ClassBody'' \<and> body n = Some [])"
  then show "paddedBlocks1 options0 sc t nid rs = Inr rs" "paddedBlocks2 options0 sc t nid rs = Inr rs"
    by (auto simp: paddedBlocks1_def paddedBlocks2_def visit_def SwitchStatement_def
        BlockStatement_def ClassBody_def bindE_def defined_def)
next
  show "paddedBlocks1 options0 sc t nid rs \<noteq> Inl NoFirstCase"
    unfolding paddedBlocks1_def by (rule visit_not_NoFirstCase) (rule checkPadding1_NoFirstCase)
next
  show "paddedBlocks2 options0 sc t nid rs \<noteq> Inl NoFirstCase"
    unfolding paddedBlocks2_def by (rule visit_not_NoFirstCase) (rule checkPadding2_NoFirstCase)
qed

theorem padded_blocks_empty_not_checked_witness:
  "SwitchStatement (checkPadding1 (create None) [] Map.empty) 1 emptySwitch [] = Inr [] \<and>
   BlockStatement (checkPadding1 (create None) [] Map.empty) 1 emptyBlock [] = Inr [] \<and>
   ClassBody (checkPadding1 (create None) [] Map.empty) 1 emptyClassBody [] = Inr [] \<and>
   paddedBlocks1 (Some (ConfigObject (Some ''never'') (Some ''always'') (Some ''always''))) []
     [1 \<mapsto> emptySwitch] 1 [] = Inr [] \<and>
   paddedBlocks2 (Some (ConfigObject (Some ''never'') (Some ''always'') (Some ''always''))) []
     [1 \<mapsto> emptySwitch] 1 [] = Inr [] \<and>
   paddedBlocks1 (Some (ConfigObject (Some ''never'') (Some ''always'') (Some ''always''))) []
     [1 \<mapsto> emptyBlock] 1 [] = Inr [] \<and>
   paddedBlocks2 (Some (ConfigObject (Some ''never'') (Some ''always'') (Some ''always''))) []
     [1 \<mapsto> emptyClassBody] 1 [] = Inr []"
proof -
  let ?cfg = "Some (ConfigObject (Some ''never'') (Some ''always'') (Some ''always''))"
  let ?chk = "checkPadding1 (create None) [] Map.empty"
  have s: "ntype emptySwitch = ''SwitchStatement''" "cases emptySwitch = Some []"
    and b: "ntype emptyBlock = ''BlockStatement''" "body emptyBlock = Some []"
    and c: "ntype emptyClassBody = ''ClassBody''" "body emptyClassBody = Some []"
    by (simp_all add: emptySwitch_def emptyBlock_def emptyClassBody_def mkNode_def)
  note sw = padded_blocks_empty_not_checked[where n = emptySwitch and t = "[1 \<mapsto> emptySwitch]"
      and nid = 1 and rs = "[]" and chk = ?chk and sc = "[]" and ?options0.0 = ?cfg]
  note bl = padded_blocks_empty_not_checked[where n = emptyBlock and t = "[1 \<mapsto> emptyBlock]"
      and nid = 1 and rs = "[]" and chk = ?chk and sc = "[]" and ?options0.0 = ?cfg]
  note cl = padded_blocks_empty_not_checked[where n = emptyClassBody and t = "[1 \<mapsto> emptyClassBody]"
      and nid = 1 and rs = "[]" and chk = ?chk and sc = "[]" and ?options0.0 = ?cfg]
  from sw s bl b cl c show ?thesis by simp
qed

subsection \<open>The default configuration\<close>

lemma getTokenPadding1_nthToken: "getTokenPadding1 sc i d = Inr v \<Longrightarrow> nthToken sc i = Inr (sc ! i)"
  by (auto simp: getTokenPadding1_def bindE_def nthToken_def split: sum.splits if_splits)

text \<open>
  Without a configuration option the rule is the rule configured with the string
  \<^verbatim>\<open>always\<close>: the options are the same, and so is what the rule does on every node.
  Only the \<^verbatim>\<open>BlockStatement\<close> callback is registered, so a node of another type is
  not checked. On a block with a non-empty body the first version takes the branch that
  requires padding: it adds a ``must be padded'' report for each end at which
  \<^verbatim>\<open>getTokenPadding\<close> returns zero, and no other report.
\<close>

theorem padded_blocks_default:
  "create None = create (Some (ConfigString ''always'')) \<and>
   paddedBlocks1 None = paddedBlocks1 (Some (ConfigString ''always'')) \<and>
   paddedBlocks2 None = paddedBlocks2 (Some (ConfigString ''always'')) \<and>
   registered (create None) = [''BlockStatement''] \<and>
   (t nid = Some n \<and> ntype n \<noteq> ''BlockStatement'' \<longrightarrow>
      paddedBlocks1 None sc t nid rs = Inr rs \<and> paddedBlocks2 None sc t nid rs = Inr rs) \<and>
   (t nid = Some n \<and> ntype n = ''BlockStatement'' \<and> body n = Some b \<and> b \<noteq> [] \<and>
    getFirstToken sc n = Some oi \<and> getLastToken sc n = Some ci \<and>
    getTokenPadding1 sc oi 1 = Inr padTop \<and> getTokenPadding1 sc ci (- 1) = Inr padBottom \<longrightarrow>
      paddedBlocks1 None sc t nid rs =
        Inr (rs @
          (if padTop = 0 then
             [\<lparr>rnode = nid, loc = Some (startLine (sc ! oi), startColumn (sc ! oi)),
               message = ''Block must be padded by blank lines.'', data = [], rfix = None\<rparr>]
           else []) @
          (if padBottom = 0 then
             [\<lparr>rnode = nid, loc = Some (endLine (sc ! ci), endColumn (sc ! ci) - 1),
               message = ''Block must be padded by blank lines.'', data = [], rfix = None\<rparr>]
           else [])))"
proof (intro conjI impI)
  show c: "create None = create (Some (ConfigString ''always''))"
    by (simp add: create_def)
  show "paddedBlocks1 None = paddedBlocks1 (Some (ConfigString ''always''))"
    by (intro ext) (simp add: paddedBlocks1_def c)
  show "paddedBlocks2 None = paddedBlocks2 (Some (ConfigString ''always''))"
    by (intro ext) (simp add: paddedBlocks2_def c)
  show r: "registered (create None) = [''BlockStatement'']"
    by (simp add: registered_def create_def)
next
  assume "t nid = Some n \<and> ntype n \<noteq> ''BlockStatement''"
  then show "paddedBlocks1 None sc t nid rs = Inr rs" "paddedBlocks2 None sc t nid rs = Inr rs"
    by (simp_all add: paddedBlocks1_def paddedBlocks2_def visit_def registered_def create_def
        bindE_def defined_def)
next
  assume a: "t nid = Some n \<and> ntype n = ''BlockStatement'' \<and> body n = Some b \<and> b \<noteq> [] \<and>
    getFirstToken sc n = Some oi \<and> getLastToken sc n = Some ci \<and>
    getTokenPadding1 sc oi 1 = Inr padTop \<and> getTokenPadding1 sc ci (- 1) = Inr padBottom"
  then have o: "nthToken sc oi = Inr (sc ! oi)" and cl: "nthToken sc ci = Inr (sc ! ci)"
    by (auto dest: getTokenPadding1_nthToken)
  have ob: "getOpenBrace sc t n = Inr oi"
    using a by (simp add: getOpenBrace_def defined_def)
  have rq: "requirePaddingFor (create None) n = Inr (Some True)"
    using a by (simp add: requirePaddingFor_def create_def)
  have "checkPadding1 (create None) sc t nid n rs =
      Inr (rs @ paddingReports False (\<lambda>line pad. line - 1) (Some True) nid oi (sc ! oi) ci (sc ! ci)
                  padTop padBottom)"
    using a o cl ob rq by (simp add: checkPadding1_def bindE_def defined_def)
  moreover have "paddedBlocks1 None sc t nid rs = checkPadding1 (create None) sc t nid n rs"
    using a by (simp add: paddedBlocks1_def visit_def BlockStatement_def bindE_def defined_def
        registered_def create_def)
  ultimately show "paddedBlocks1 None sc t nid rs =
        Inr (rs @
          (if padTop = 0 then
             [\<lparr>rnode = nid, loc = Some (startLine (sc ! oi), startColumn (sc ! oi)),
               message = ''Block must be padded by blank lines.'', data = [], rfix = None\<rparr>]
           else []) @
          (if padBottom = 0 then
             [\<lparr>rnode = nid, loc = Some (endLine (sc ! ci), endColumn (sc ! ci) - 1),
               message = ''Block must be padded by blank lines.'', data = [], rfix = None\<rparr>]
           else []))"
    by (simp add: paddingReports_def ALWAYS_MESSAGE_def)
qed

theorem padded_blocks_default_witness:
  "paddedBlocks1 None tokensTight (astBlock 8) 1 [] =
     Inr [\<lparr>rnode = 1, loc = Some (1, 0),
           message = ''Block must be padded by blank lines.'', data = [], rfix = None\<rparr>,
          \<lparr>rnode = 1, loc = Some (3, 0),
           message = ''Block must be padded by blank lines.'', data = [], rfix = None\<rparr>] \<and>
   paddedBlocks1 None tokensTight [1 \<mapsto> emptySwitch\<lparr>cases := Some [2]\<rparr>] 1 [] = Inr [] \<and>
   paddedBlocks2 None tokensTight [1 \<mapsto> emptySwitch\<lparr>cases := Some [2]\<rparr>] 1 [] = Inr []"
proof -
  let ?n = "(mkNode ''BlockStatement'' (Some 0))\<lparr>body := Some [2], range := (0, 8)\<rparr>"
  have h: "astBlock 8 1 = Some ?n \<and> ntype ?n = ''BlockStatement'' \<and> body ?n = Some [2] \<and>
      [2::nat] \<noteq> [] \<and> getFirstToken tokensTight ?n = Some 0 \<and>
      getLastToken tokensTight ?n = Some 3 \<and>
      getTokenPadding1 tokensTight 0 1 = Inr 0 \<and> getTokenPadding1 tokensTight 3 (- 1) = Inr 0"
    by code_simp
  have g: "[1 \<mapsto> emptySwitch\<lparr>cases := Some [2]\<rparr>] 1 = Some (emptySwitch\<lparr>cases := Some [2]\<rparr>) \<and>
      ntype (emptySwitch\<lparr>cases := Some [2]\<rparr>) \<noteq> ''BlockStatement''"
    by (simp add: emptySwitch_def mkNode_def)
  have v: "startLine (tokensTight ! 0) = 1" "startColumn (tokensTight ! 0) = 0"
    "endLine (tokensTight ! 3) = 3" "endColumn (tokensTight ! 3) = 1"
    by (simp_all add: tokensTight_def tok_def)
  note blk = padded_blocks_default[where t = "astBlock 8" and nid = 1 and n = ?n and sc = tokensTight
      and b = "[2]" and oi = 0 and ci = 3 and padTop = 0 and padBottom = 0 and rs = "[]"]
  note swt = padded_blocks_default[where t = "[1 \<mapsto> emptySwitch\<lparr>cases := Some [2]\<rparr>]" and nid = 1
      and n = "emptySwitch\<lparr>cases := Some [2]\<rparr>" and sc = tokensTight and rs = "[]"]
  from blk[THEN conjunct2, THEN conjunct2, THEN conjunct2, THEN conjunct2, THEN conjunct2] h
  have "paddedBlocks1 None tokensTight (astBlock 8) 1 [] =
     Inr [\<lparr>rnode = 1, loc = Some (1, 0),
           message = ''Block must be padded by blank lines.'', data = [], rfix = None\<rparr>,
          \<lparr>rnode = 1, loc = Some (3, 0),
           message = ''Block must be padded by blank lines.'', data = [], rfix = None\<rparr>]"
    by (simp add: v)
  moreover from swt[THEN conjunct2, THEN conjunct2, THEN conjunct2, THEN conjunct2, THEN conjunct1] g
  have "paddedBlocks1 None tokensTight [1 \<mapsto> emptySwitch\<lparr>cases := Some [2]\<rparr>] 1 [] = Inr []"
    "paddedBlocks2 None tokensTight [1 \<mapsto> emptySwitch\<lparr>cases := Some [2]\<rparr>] 1 [] = Inr []"
    by blast+
  ultimately show ?thesis by simp
qed

text \<open>
  C10. Without a configuration option the options are those of the string \<^verbatim>\<open>always\<close>
  and only the \<^verbatim>\<open>BlockStatement\<close> callback is registered; but the first version of the
  rule does not hold every non-empty block to padding. For \<^verbatim>\<open>{ x; }\<close> on one line its
  \<^verbatim>\<open>getTokenPadding\<close> returns \<^verbatim>\<open>Math.abs(1 - 1 - 1)\<close> above and
  \<^verbatim>\<open>Math.abs(1 + 1 - 1)\<close> below the statement, one blank line on each side where there
  is none, and the rule reports nothing. The second version counts zero on both sides
  and reports both ends.
\<close>

theorem padded_blocks_default_one_line:
  "create None = create (Some (ConfigString ''always'')) \<and>
   registered (create None) = [''BlockStatement''] \<and>
   getTokenPadding1 tokensOneLine 0 1 = Inr 1 \<and>
   getTokenPadding1 tokensOneLine 3 (- 1) = Inr 1 \<and>
   paddedBlocks1 None tokensOneLine (astBlock 6) 1 [] = Inr [] \<and>
   paddedBlocks1 (Some (ConfigString ''always'')) tokensOneLine (astBlock 6) 1 [] = Inr [] \<and>
   getTokenPadding2 tokensOneLine 0 1 = Inr 0 \<and>
   getTokenPadding2 tokensOneLine 3 (- 1) = Inr 0 \<and>
   map_sum id (map message) (paddedBlocks2 None tokensOneLine (astBlock 6) 1 []) =
     Inr [''Block must be padded by blank lines.'', ''Block must be padded by blank lines.'']"
  by code_simp

section \<open>Properties of the valid-typeof rule\<close>





section \<open>Properties of the new-parens rule\<close>

text \<open>
  C5, as amended. The rule reports a \<^verbatim>\<open>new\<close> expression exactly when its tokens do not
  hold both a \<^verbatim>\<open>(\<close> and a \<^verbatim>\<open>)\<close>; the fix of the report inserts \<^verbatim>\<open>()\<close> at the end of
  the node.
\<close>

theorem new_parens_report:
  assumes "t nid = Some n"
  shows "NewExpression sc t nid rs =
           Some (if list_ex (\<lambda>k. tvalue k = ''('') (getTokens sc n) \<and>
                    list_ex (\<lambda>k. tvalue k = '')'') (getTokens sc n)
                 then rs else rs @ [newParensReport nid]) \<and>
         rfix (newParensReport nid) = Some (InsertParensAfter nid) \<and>
         runNewParensFix t nid = Some \<lparr>erange = (snd (range n), snd (range n)), etext = ''()''\<rparr>"
  using assms
  by (auto simp: NewExpression_def isValue_def[abs_def] newParensReport_def runNewParensFix_def
      insertTextAfter_def)

text \<open>
  \<^verbatim>\<open>new Foo\<close> is reported and fixed to \<^verbatim>\<open>new Foo()\<close>; \<^verbatim>\<open>new Foo()\<close> and
  \<^verbatim>\<open>new Foo(1)\<close> are not reported.
\<close>

theorem new_parens_report_witness:
  "NewExpression tokensNewFoo (astNew 7) 2 [] = Some [newParensReport 2] \<and>
   map_option (applyEdit ''new Foo'') (runNewParensFix (astNew 7) 2) = Some ''new Foo()'' \<and>
   NewExpression tokensNewFooParens (astNew 9) 2 [] = Some [] \<and>
   NewExpression tokensNewFooArg (astNew 10) 2 [] = Some []"
proof -
  have n: "astNew k 2 = Some ((mkNode ''NewExpression'' (Some 1))\<lparr>range := (0, k)\<rparr>)" for k
    by (simp add: astNew_def)
  have a: "\<not> list_ex (\<lambda>k. tvalue k = ''('') (getTokens tokensNewFoo ((mkNode ''NewExpression'' (Some 1))\<lparr>range := (0, 7)\<rparr>))"
    by code_simp
  have b: "list_ex (\<lambda>k. tvalue k = ''('') (getTokens tokensNewFooParens ((mkNode ''NewExpression'' (Some 1))\<lparr>range := (0, 9)\<rparr>))"
      "list_ex (\<lambda>k. tvalue k = '')'') (getTokens tokensNewFooParens ((mkNode ''NewExpression'' (Some 1))\<lparr>range := (0, 9)\<rparr>))"
    by code_simp+
  have c: "list_ex (\<lambda>k. tvalue k = ''('') (getTokens tokensNewFooArg ((mkNode ''NewExpression'' (Some 1))\<lparr>range := (0, 10)\<rparr>))"
      "list_ex (\<lambda>k. tvalue k = '')'') (getTokens tokensNewFooArg ((mkNode ''NewExpression'' (Some 1))\<lparr>range := (0, 10)\<rparr>))"
    by code_simp+
  show ?thesis
    using new_parens_report[where t = "astNew 7" and nid = 2 and sc = tokensNewFoo and rs = "[]", OF n]
      new_parens_report[where t = "astNew 9" and nid = 2 and sc = tokensNewFooParens and rs = "[]", OF n]
      new_parens_report[where t = "astNew 10" and nid = 2 and sc = tokensNewFooArg and rs = "[]", OF n]
      a b c
    by (simp add: applyEdit_def)
qed

text \<open>
  One parenthesis alone does not keep the rule quiet: the tokens of \<^verbatim>\<open>new <a>(</a>\<close>
  hold a \<^verbatim>\<open>(\<close> and no \<^verbatim>\<open>)\<close>, and the expression is reported.
\<close>

theorem new_parens_one_paren_reported:
  "list_ex (isValue ''('') (getTokens tokensNewJsx ((mkNode ''NewExpression'' (Some 1))\<lparr>range := (0, 12)\<rparr>)) \<and>
   astNew 12 2 = Some ((mkNode ''NewExpression'' (Some 1))\<lparr>range := (0, 12)\<rparr>) \<and>
   NewExpression tokensNewJsx (astNew 12) 2 [] = Some [newParensReport 2]"
  by code_simp

end
